theory Spec2Isabelle
  imports Main "HOL-Library.Multiset"
begin

section \<open>JavaScript values and objects\<close>

text \<open>
  The services handle plain JavaScript values: request fields, query filters, documents.
  A value is one of the primitives below or a \<open>Date\<close>; a \<open>Date\<close> carries its time value in
  milliseconds since the epoch, \<open>None\<close> being the invalid date (time value NaN). Numbers are
  the integer-valued ones. An object is a list of key/value pairs in insertion order; a
  key that is absent reads as \<open>undefined\<close>.
\<close>

datatype jsval =
    JUndefined
  | JNull
  | JBool bool
  | JNum int
  | JStr string
  | JDate "int option"
  | JObjectId nat

type_synonym jsobj = "(string \<times> jsval) list"

text \<open>\<open>o.k\<close>: the value under key \<open>k\<close>, \<open>undefined\<close> when the key is absent.\<close>

definition field :: "jsobj \<Rightarrow> string \<Rightarrow> jsval" where
  "field obj k = (case map_of obj k of None \<Rightarrow> JUndefined | Some v \<Rightarrow> v)"

text \<open>\<open>o?.k\<close> on an object that may be \<open>null\<close> or \<open>undefined\<close> (\<open>None\<close>).\<close>

definition opt_field :: "jsobj option \<Rightarrow> string \<Rightarrow> jsval" where
  "opt_field obj k = (case obj of None \<Rightarrow> JUndefined | Some ob \<Rightarrow> field ob k)"

text \<open>\<open>k in o\<close>.\<close>

definition in_obj :: "string \<Rightarrow> jsobj \<Rightarrow> bool" where
  "in_obj k obj = (k \<in> set (map fst obj))"

text \<open>Truthiness: what \<open>if (v)\<close> and \<open>!v\<close> test.\<close>

fun truthy :: "jsval \<Rightarrow> bool" where
  "truthy JUndefined = False"
| "truthy JNull = False"
| "truthy (JBool b) = b"
| "truthy (JNum n) = (n \<noteq> 0)"
| "truthy (JStr s) = (s \<noteq> [])"
| "truthy (JDate d) = True"
| "truthy (JObjectId i) = True"

text \<open>
  \<open>a !== b\<close> is the negation of strict equality: primitives are compared by value, two
  objects (dates, ids) only by identity, and a stored document never shares an object with
  the caller's input.
\<close>

fun strict_eq :: "jsval \<Rightarrow> jsval \<Rightarrow> bool" where
  "strict_eq JUndefined JUndefined = True"
| "strict_eq JNull JNull = True"
| "strict_eq (JBool a) (JBool b) = (a = b)"
| "strict_eq (JNum a) (JNum b) = (a = b)"
| "strict_eq (JStr a) (JStr b) = (a = b)"
| "strict_eq _ _ = False"

datatype exn = TypeError | StoreError string

text \<open>
  \<open>String.prototype.trim\<close> removes white space and line terminators at both ends.
  Characters are code points below 256, where these are tab, LF, VT, FF, CR, space and
  the no-break space.
\<close>

definition isWhiteSpace :: "char \<Rightarrow> bool" where
  "isWhiteSpace c = (of_char c \<in> {9, 10, 11, 12, 13, 32, 160 :: nat})"

definition trim :: "string \<Rightarrow> string" where
  "trim s = rev (dropWhile isWhiteSpace (rev (dropWhile isWhiteSpace s)))"

text \<open>
  \<open>v?.trim()\<close>: \<open>undefined\<close> on \<open>null\<close> and \<open>undefined\<close>, the trimmed string on a string,
  and a \<open>TypeError\<close> on any other value, which has no \<open>trim\<close> method.
\<close>

fun opt_trim :: "jsval \<Rightarrow> exn + jsval" where
  "opt_trim JUndefined = Inr JUndefined"
| "opt_trim JNull = Inr JUndefined"
| "opt_trim (JStr s) = Inr (JStr (trim s))"
| "opt_trim _ = Inl TypeError"

section \<open>Asynchronous steps over a store\<close>

text \<open>
  A step runs on the state of the persistence store and either raises or returns a value,
  together with the state it leaves. \<open>await\<close> sequences two steps and stops at the first
  raise; \<open>eval\<close> is a computation that does not touch the store; \<open>try_catch\<close> is a
  \<open>try\<close> block whose \<open>catch\<close> clause returns a fixed value.
\<close>

type_synonym ('st, 'a) step = "'st \<Rightarrow> (exn + 'a) \<times> 'st"

definition ret :: "'a \<Rightarrow> ('st, 'a) step" where
  "ret x s = (Inr x, s)"

definition eval :: "exn + 'a \<Rightarrow> ('st, 'a) step" where
  "eval r s = (r, s)"

definition await :: "('st, 'a) step \<Rightarrow> ('a \<Rightarrow> ('st, 'b) step) \<Rightarrow> ('st, 'b) step" where
  "await m k s = (case m s of (Inl e, s') \<Rightarrow> (Inl e, s') | (Inr x, s') \<Rightarrow> k x s')"

definition try_catch :: "('st, 'a) step \<Rightarrow> 'a \<Rightarrow> 'st \<Rightarrow> 'a \<times> 'st" where
  "try_catch body handler s =
     (case body s of (Inl e, s') \<Rightarrow> (handler, s') | (Inr r, s') \<Rightarrow> (r, s'))"

section \<open>The user service (src/server/services/user.service.ts)\<close>

text \<open>
  \<open>UserModel\<close> is the persistence adapter, a parameter of every operation. Each of its
  calls takes the query objects the service builds and answers with a document, with
  \<open>null\<close> (\<open>None\<close>) or by raising. \<open>findOneAndUpdate\<close> takes the filter and the \<open>$set\<close>
  patch; its options \<open>{new: true, lean: true}\<close> are fixed in the source, so its answer is
  the document after the update.
\<close>

record 'st user_model =
  findOne :: "jsobj \<Rightarrow> ('st, jsobj option) step"
  create :: "jsobj \<Rightarrow> ('st, jsobj) step"
  findOneAndDelete :: "jsobj \<Rightarrow> ('st, jsobj option) step"
  findOneAndUpdate :: "jsobj \<Rightarrow> jsobj \<Rightarrow> ('st, jsobj option) step"

definition toSafeUser :: "jsobj \<Rightarrow> jsobj" where
  "toSafeUser u =
     (let id = field u ''_id''; username = field u ''username''; dateJoined = field u ''dateJoined''
      in [(''_id'', id), (''username'', username), (''dateJoined'', dateJoined)])"

definition errorResp :: "string \<Rightarrow> jsobj" where
  "errorResp message = [(''error'', JStr message)]"

text \<open>\<open>now\<close> is the value of \<open>new Date()\<close>, the process clock in milliseconds.\<close>

definition saveUser :: "'st user_model \<Rightarrow> int \<Rightarrow> jsobj option \<Rightarrow> 'st \<Rightarrow> jsobj \<times> 'st" where
  "saveUser M now user =
     try_catch
       (await (eval (opt_trim (opt_field user ''username''))) (\<lambda>username.
        await (eval (opt_trim (opt_field user ''password''))) (\<lambda>password.
        await (findOne M [(''username'', username)]) (\<lambda>exists.
        case exists of
          Some _ \<Rightarrow> ret (errorResp ''Username already exists'')
        | None \<Rightarrow>
            await (create M [(''username'', username), (''password'', password),
                             (''dateJoined'', JDate (Some now))]) (\<lambda>newUser.
            ret (toSafeUser newUser))))))
       (errorResp ''Failed to create user'')"

definition getUserByUsername :: "'st user_model \<Rightarrow> jsval \<Rightarrow> 'st \<Rightarrow> jsobj \<times> 'st" where
  "getUserByUsername M username =
     try_catch
       (await (eval (opt_trim username)) (\<lambda>u.
        await (findOne M [(''username'', u)]) (\<lambda>doc.
        case doc of
          None \<Rightarrow> ret (errorResp ''User not found'')
        | Some d \<Rightarrow> ret (toSafeUser d))))
       (errorResp ''Failed to get user'')"

definition loginUser :: "'st user_model \<Rightarrow> jsobj option \<Rightarrow> 'st \<Rightarrow> jsobj \<times> 'st" where
  "loginUser M loginCredentials =
     try_catch
       (await (eval (opt_trim (opt_field loginCredentials ''username''))) (\<lambda>username.
        await (eval (opt_trim (opt_field loginCredentials ''password''))) (\<lambda>password.
        await (findOne M [(''username'', username)]) (\<lambda>doc.
        case doc of
          None \<Rightarrow> ret (errorResp ''Invalid credentials'')
        | Some d \<Rightarrow>
            if \<not> strict_eq (field d ''password'') password
            then ret (errorResp ''Invalid credentials'')
            else ret (toSafeUser d)))))
       (errorResp ''Failed to login'')"

definition deleteUserByUsername :: "'st user_model \<Rightarrow> jsval \<Rightarrow> 'st \<Rightarrow> jsobj \<times> 'st" where
  "deleteUserByUsername M username =
     try_catch
       (await (eval (opt_trim username)) (\<lambda>u.
        await (findOneAndDelete M [(''username'', u)]) (\<lambda>doc.
        case doc of
          None \<Rightarrow> ret (errorResp ''User not found'')
        | Some d \<Rightarrow> ret (toSafeUser d))))
       (errorResp ''Failed to delete user'')"

text \<open>
  The patch of \<open>updateUser\<close>: the password first, then the username, each only when the
  update carries a string under that key (\<open>typeof v === 'string'\<close>).
\<close>

definition patch_field :: "jsobj \<Rightarrow> string \<Rightarrow> jsobj" where
  "patch_field updates k = (case field updates k of JStr v \<Rightarrow> [(k, JStr (trim v))] | _ \<Rightarrow> [])"

text \<open>
  Reading \<open>updates.password\<close> raises a \<open>TypeError\<close> when \<open>updates\<close> is \<open>null\<close> or
  \<open>undefined\<close> (\<open>None\<close>).
\<close>

definition build_patch :: "jsobj option \<Rightarrow> exn + jsobj" where
  "build_patch updates =
     (case updates of
        None \<Rightarrow> Inl TypeError
      | Some upd \<Rightarrow> Inr (patch_field upd ''password'' @ patch_field upd ''username''))"

definition updateUser :: "'st user_model \<Rightarrow> jsval \<Rightarrow> jsobj option \<Rightarrow> 'st \<Rightarrow> jsobj \<times> 'st" where
  "updateUser M username updates =
     try_catch
       (await (eval (opt_trim username)) (\<lambda>u.
        await (eval (build_patch updates)) (\<lambda>patch.
        await (findOneAndUpdate M [(''username'', u)] patch) (\<lambda>updated.
        case updated of
          None \<Rightarrow> ret (errorResp ''User not found'')
        | Some d \<Rightarrow> ret (toSafeUser d)))))
       (errorResp ''Failed to update user'')"

text \<open>\<open>Object.keys(o)\<close>: the keys of an object, in order.\<close>

definition keys :: "jsobj \<Rightarrow> string list" where
  "keys obj = map fst obj"

text \<open>
  What a caller sees of a user operation: an error object, whose only key is \<open>error\<close>, or
  a safe projection, whose keys are \<open>_id\<close>, \<open>username\<close> and \<open>dateJoined\<close>.
\<close>

definition user_response :: "jsobj \<Rightarrow> bool" where
  "user_response r = (keys r = [''error''] \<or> keys r = [''_id'', ''username'', ''dateJoined''])"

section \<open>The user collection\<close>

text \<open>
  Modelled from the spec: the persistence adapter behind \<open>UserModel\<close> (the model of
  ../models/users.model and the document store under it), which is not under src/. The
  spec describes it as create/find/update/delete by unique key with atomic find-and-mutate;
  the schema of src/server/models/schema/user.schema.ts adds that \<open>username\<close> and
  \<open>password\<close> are required strings (the empty string does not satisfy \<open>required\<close>) and
  that \<open>username\<close> is unique. The service always passes \<open>dateJoined\<close>, so the schema
  default for it is never used. The collection is the list of its documents in insertion
  order and the next fresh identifier.
\<close>

record user_store =
  docs :: "jsobj list"
  next_id :: nat

definition matches :: "jsobj \<Rightarrow> jsobj \<Rightarrow> bool" where
  "matches flt d = list_all (\<lambda>(k, v). field d k = v) flt"

definition nonempty_string :: "jsval \<Rightarrow> bool" where
  "nonempty_string v = (case v of JStr s \<Rightarrow> s \<noteq> [] | _ \<Rightarrow> False)"

definition valid_date :: "jsval \<Rightarrow> bool" where
  "valid_date v = (case v of JDate (Some t) \<Rightarrow> True | _ \<Rightarrow> False)"

definition store_findOne :: "jsobj \<Rightarrow> (user_store, jsobj option) step" where
  "store_findOne flt st = (Inr (find (matches flt) (docs st)), st)"

definition store_create :: "jsobj \<Rightarrow> (user_store, jsobj) step" where
  "store_create obj st =
     (if \<not> nonempty_string (field obj ''username'') \<or> \<not> nonempty_string (field obj ''password'')
         \<or> \<not> valid_date (field obj ''dateJoined'')
      then (Inl (StoreError ''User validation failed''), st)
      else if list_ex (\<lambda>d. field d ''username'' = field obj ''username'') (docs st)
      then (Inl (StoreError ''E11000 duplicate key error''), st)
      else
        (let doc = [(''_id'', JObjectId (next_id st)), (''username'', field obj ''username''),
                    (''password'', field obj ''password''), (''dateJoined'', field obj ''dateJoined'')]
         in (Inr doc, \<lparr>docs = docs st @ [doc], next_id = Suc (next_id st)\<rparr>)))"

definition store_findOneAndDelete :: "jsobj \<Rightarrow> (user_store, jsobj option) step" where
  "store_findOneAndDelete flt st =
     (case find (matches flt) (docs st) of
        None \<Rightarrow> (Inr None, st)
      | Some d \<Rightarrow> (Inr (Some d), st\<lparr>docs := remove1 d (docs st)\<rparr>))"

text \<open>\<open>$set\<close>: every key of the patch is overwritten in the document, or added to it.\<close>

definition set_field :: "string \<Rightarrow> jsval \<Rightarrow> jsobj \<Rightarrow> jsobj" where
  "set_field k v d =
     (if in_obj k d then map (\<lambda>(k', v'). if k' = k then (k', v) else (k', v')) d
      else d @ [(k, v)])"

definition apply_set :: "jsobj \<Rightarrow> jsobj \<Rightarrow> jsobj" where
  "apply_set patch d = fold (\<lambda>(k, v). set_field k v) patch d"

fun replace_first :: "('a \<Rightarrow> bool) \<Rightarrow> ('a \<Rightarrow> 'a) \<Rightarrow> 'a list \<Rightarrow> 'a list" where
  "replace_first P f [] = []"
| "replace_first P f (x # xs) = (if P x then f x # xs else x # replace_first P f xs)"

fun others :: "('a \<Rightarrow> bool) \<Rightarrow> 'a list \<Rightarrow> 'a list" where
  "others P [] = []"
| "others P (x # xs) = (if P x then xs else x # others P xs)"

text \<open>
  Validators do not run on an update; the unique index on \<open>username\<close> still does when
  the update changes the name, against every document other than the one being updated.
\<close>

definition store_findOneAndUpdate :: "jsobj \<Rightarrow> jsobj \<Rightarrow> (user_store, jsobj option) step" where
  "store_findOneAndUpdate flt patch st =
     (case find (matches flt) (docs st) of
        None \<Rightarrow> (Inr None, st)
      | Some d \<Rightarrow>
          if field (apply_set patch d) ''username'' \<noteq> field d ''username''
             \<and> list_ex (\<lambda>e. field e ''username'' = field (apply_set patch d) ''username'')
                   (others (matches flt) (docs st))
          then (Inl (StoreError ''E11000 duplicate key error''), st)
          else (Inr (Some (apply_set patch d)),
                st\<lparr>docs := replace_first (matches flt) (apply_set patch) (docs st)\<rparr>))"

definition user_collection :: "user_store user_model" where
  "user_collection =
     \<lparr>findOne = store_findOne, create = store_create,
      findOneAndDelete = store_findOneAndDelete, findOneAndUpdate = store_findOneAndUpdate\<rparr>"

definition empty_store :: user_store where
  "empty_store = \<lparr>docs = [], next_id = 0\<rparr>"

section \<open>Adapters that record or refuse\<close>

text \<open>
  Two further adapters, used to observe the services from outside: one whose state is the
  list of the filters it was asked to look up and which finds nothing, and one that is
  out of order, every call raising with the driver's text.
\<close>

definition lookup_log :: "(jsobj list) user_model" where
  "lookup_log =
     \<lparr>findOne = (\<lambda>flt log. (Inr None, log @ [flt])),
      create = (\<lambda>obj log. (Inr obj, log)),
      findOneAndDelete = (\<lambda>flt log. (Inr None, log @ [flt])),
      findOneAndUpdate = (\<lambda>flt patch log. (Inr None, log @ [flt]))\<rparr>"

definition driver_text :: string where
  "driver_text = ''MongoNetworkError: connection refused''"

definition broken_store :: "unit user_model" where
  "broken_store =
     \<lparr>findOne = (\<lambda>flt s. (Inl (StoreError driver_text), s)),
      create = (\<lambda>obj s. (Inl (StoreError driver_text), s)),
      findOneAndDelete = (\<lambda>flt s. (Inl (StoreError driver_text), s)),
      findOneAndUpdate = (\<lambda>flt patch s. (Inl (StoreError driver_text), s))\<rparr>"

text \<open>A store whose lookups succeed and find nothing, and whose \<open>create\<close> raises.\<close>

definition readonly_store :: "unit user_model" where
  "readonly_store =
     \<lparr>findOne = (\<lambda>flt s. (Inr None, s)),
      create = (\<lambda>obj s. (Inl (StoreError driver_text), s)),
      findOneAndDelete = (\<lambda>flt s. (Inr None, s)),
      findOneAndUpdate = (\<lambda>flt patch s. (Inr None, s))\<rparr>"

text \<open>
  A stored user as the data model has it, found under the name \<open>un\<close>: its \<open>username\<close> is
  \<open>un\<close>, and \<open>username\<close> and \<open>password\<close> are non-empty strings.
\<close>

definition stored_user :: "jsval \<Rightarrow> jsobj \<Rightarrow> bool" where
  "stored_user un d =
     (field d ''username'' = un \<and> nonempty_string (field d ''username'')
      \<and> nonempty_string (field d ''password''))"

definition alice :: jsobj where
  "alice = [(''username'', JStr ''alice''), (''password'', JStr ''secret'')]"

definition alice_store :: user_store where
  "alice_store =
     \<lparr>docs = [[(''_id'', JObjectId 0), (''username'', JStr ''alice''),
               (''password'', JStr ''secret''), (''dateJoined'', JDate (Some 1733184000000))]],
      next_id = 1\<rparr>"

section \<open>The message service (services/message.service.ts)\<close>

text \<open>
  What the JavaScript runtime supplies: the process clock read by \<open>new Date()\<close>,
  \<open>Date.parse\<close> on a string (\<open>None\<close> is NaN), the \<open>toString()\<close> rendering of the
  values that are neither strings nor booleans, and the engine's procedure behind
  \<open>Array.prototype.sort\<close> with a comparison function (whose result \<open>None\<close> is NaN).
\<close>

record runtime =
  clock :: int
  Date_parse :: "string \<Rightarrow> int option"
  render :: "jsval \<Rightarrow> string"
  Array_sort :: "(jsobj \<Rightarrow> jsobj \<Rightarrow> int option) \<Rightarrow> jsobj list \<Rightarrow> jsobj list"

definition toString :: "runtime \<Rightarrow> jsval \<Rightarrow> string" where
  "toString rt v =
     (case v of
        JStr s \<Rightarrow> s
      | JBool b \<Rightarrow> (if b then ''true'' else ''false'')
      | _ \<Rightarrow> render rt v)"

text \<open>\<open>v?.toString().trim()\<close>.\<close>

definition toString_trim :: "runtime \<Rightarrow> jsval \<Rightarrow> jsval" where
  "toString_trim rt v =
     (case v of
        JUndefined \<Rightarrow> JUndefined
      | JNull \<Rightarrow> JUndefined
      | _ \<Rightarrow> JStr (trim (toString rt v)))"

text \<open>
  The time value of \<open>new Date(v)\<close>: a date is copied, a number is clipped to the range of
  time values, a string is parsed, and nothing is rejected: the result may be the invalid
  date.
\<close>

definition time_clip :: "int \<Rightarrow> int option" where
  "time_clip n = (if \<bar>n\<bar> \<le> 8640000000000000 then Some n else None)"

fun new_Date :: "runtime \<Rightarrow> jsval \<Rightarrow> int option" where
  "new_Date rt (JDate d) = d"
| "new_Date rt (JNum n) = time_clip n"
| "new_Date rt (JStr s) = Date_parse rt s"
| "new_Date rt (JBool b) = Some (if b then 1 else 0)"
| "new_Date rt JNull = Some 0"
| "new_Date rt JUndefined = None"
| "new_Date rt (JObjectId i) = Date_parse rt (render rt (JObjectId i))"

text \<open>\<open>v ? new Date(v) : new Date()\<close>, the expression behind \<open>when\<close>.\<close>

definition when_of :: "runtime \<Rightarrow> jsval \<Rightarrow> int option" where
  "when_of rt v = (if truthy v then new_Date rt v else Some (clock rt))"

text \<open>
  \<open>MessageModel\<close>: \<open>create_msg\<close> is \<open>MessageModel.create\<close> followed by \<open>toObject()\<close>,
  \<open>find_sorted\<close> is \<open>MessageModel.find({}).sort({msgDateTime: 1}).lean().exec()\<close>.
\<close>

record 'st message_model =
  create_msg :: "jsobj \<Rightarrow> ('st, jsobj) step"
  find_sorted :: "('st, jsobj list) step"

definition saveMessage ::
  "runtime \<Rightarrow> 'st message_model \<Rightarrow> jsobj option \<Rightarrow> 'st \<Rightarrow> jsobj \<times> 'st" where
  "saveMessage rt M message =
     try_catch
       (let text = toString_trim rt (opt_field message ''msg'');
            from = toString_trim rt (opt_field message ''msgFrom'');
            when = when_of rt (opt_field message ''msgDateTime'')
        in if \<not> truthy text \<or> \<not> truthy from then ret (errorResp ''Invalid message body'')
           else await (create_msg M [(''msg'', text), (''msgFrom'', from),
                                     (''msgDateTime'', JDate when)]) (\<lambda>created.
                ret created))
       (errorResp ''Failed to save message'')"

text \<open>\<open>new Date(a.msgDateTime).getTime()\<close>, \<open>None\<close> being NaN.\<close>

definition getTime :: "runtime \<Rightarrow> jsobj \<Rightarrow> int option" where
  "getTime rt a = new_Date rt (field a ''msgDateTime'')"

text \<open>The comparison function: the difference of the two times, NaN when either is.\<close>

definition compare_time :: "runtime \<Rightarrow> jsobj \<Rightarrow> jsobj \<Rightarrow> int option" where
  "compare_time rt a b =
     (case (getTime rt a, getTime rt b) of
        (Some x, Some y) \<Rightarrow> Some (x - y)
      | _ \<Rightarrow> None)"

text \<open>
  \<open>list.sort(compare)\<close>. The language fixes the result only for a consistent comparison
  function, for which the sort is stable; otherwise the order is left to the engine. An
  array of fewer than two elements is returned as it is; a longer one is sorted by the
  engine's procedure, \<open>Array_sort\<close> of the runtime.
\<close>

definition sort_array ::
  "runtime \<Rightarrow> (jsobj \<Rightarrow> jsobj \<Rightarrow> int option) \<Rightarrow> jsobj list \<Rightarrow> jsobj list" where
  "sort_array rt cmp xs = (if length xs < 2 then xs else Array_sort rt cmp xs)"



definition getMessages :: "runtime \<Rightarrow> 'st message_model \<Rightarrow> 'st \<Rightarrow> jsobj list \<times> 'st" where
  "getMessages rt M =
     try_catch
       (await (find_sorted M) (\<lambda>list.
        ret (sort_array rt (compare_time rt) list)))
       []"

text \<open>
  The object \<open>normalized\<close> that \<open>addMessageRoute\<close> builds from the body's \<open>messageToAdd\<close>
  and hands to \<open>saveMessage\<close>.
\<close>

definition normalized :: "runtime \<Rightarrow> jsobj \<Rightarrow> jsobj" where
  "normalized rt incoming =
     [(''msg'', toString_trim rt (field incoming ''msg'')),
      (''msgFrom'', toString_trim rt (field incoming ''msgFrom'')),
      (''msgDateTime'', JDate (when_of rt (field incoming ''msgDateTime''))),
      (''_id'', field incoming ''_id'')]"

text \<open>
  Test doubles for \<open>MessageModel\<close>: one that answers \<open>find\<close> with a prepared result, as the
  repository's tests do, and one whose state is the list of the documents it was asked to
  create.
\<close>

definition mock_find :: "exn + jsobj list \<Rightarrow> unit message_model" where
  "mock_find answer =
     \<lparr>create_msg = (\<lambda>obj s. (Inr obj, s)), find_sorted = (\<lambda>s. (answer, s))\<rparr>"

definition message_log :: "(jsobj list) message_model" where
  "message_log =
     \<lparr>create_msg = (\<lambda>obj log. (Inr ((''_id'', JObjectId (length log)) # obj), log @ [obj])),
      find_sorted = (\<lambda>log. (Inr log, log))\<rparr>"

text \<open>
  The sort of the test runtime is the procedure of V8, the engine of Node, for an array of
  fewer than 64 elements, which V8 treats as a single run: the result of the comparison
  function is read with NaN as zero; the longest run at the front that is non-descending,
  or strictly descending and then reversed, is taken as sorted; every later element is put
  into the sorted front at the place a binary search finds for it. (From 64 elements on V8
  cuts the array into several such runs and merges them; the test runtime is not used
  there.)
\<close>

definition order_of :: "('a \<Rightarrow> 'a \<Rightarrow> int option) \<Rightarrow> 'a \<Rightarrow> 'a \<Rightarrow> int" where
  "order_of cmp x y = (case cmp x y of None \<Rightarrow> 0 | Some v \<Rightarrow> v)"

fun extend_run :: "bool \<Rightarrow> ('a \<Rightarrow> 'a \<Rightarrow> int option) \<Rightarrow> 'a \<Rightarrow> 'a list \<Rightarrow> 'a list \<times> 'a list" where
  "extend_run descending cmp previous [] = ([], [])"
| "extend_run descending cmp previous (current # xs) =
     (if (if descending then 0 \<le> order_of cmp current previous
          else order_of cmp current previous < 0)
      then ([], current # xs)
      else (case extend_run descending cmp current xs of (run, rest) \<Rightarrow> (current # run, rest)))"

fun count_and_make_run :: "('a \<Rightarrow> 'a \<Rightarrow> int option) \<Rightarrow> 'a list \<Rightarrow> 'a list \<times> 'a list" where
  "count_and_make_run cmp (high # low # xs) =
     (let descending = (order_of cmp low high < 0)
      in case extend_run descending cmp low xs of
           (run, rest) \<Rightarrow>
             (if descending then rev (high # low # run) else high # low # run, rest))"
| "count_and_make_run cmp xs = (xs, [])"

function insertion_point ::
  "('a \<Rightarrow> 'a \<Rightarrow> int option) \<Rightarrow> 'a \<Rightarrow> 'a list \<Rightarrow> nat \<Rightarrow> nat \<Rightarrow> nat" where
  "insertion_point cmp pivot ws left right =
     (if left < right
      then (let mid = left + (right - left) div 2
            in if order_of cmp pivot (ws ! mid) < 0
               then insertion_point cmp pivot ws left mid
               else insertion_point cmp pivot ws (mid + 1) right)
      else left)"
  by pat_completeness auto
termination
  by (relation "measure (\<lambda>(cmp, pivot, ws, left, right). right - left)") auto

definition insert_pivot :: "('a \<Rightarrow> 'a \<Rightarrow> int option) \<Rightarrow> 'a \<Rightarrow> 'a list \<Rightarrow> 'a list" where
  "insert_pivot cmp pivot ws =
     (let left = insertion_point cmp pivot ws 0 (length ws)
      in take left ws @ pivot # drop left ws)"

definition binary_insertion_sort ::
  "('a \<Rightarrow> 'a \<Rightarrow> int option) \<Rightarrow> 'a list \<Rightarrow> 'a list \<Rightarrow> 'a list" where
  "binary_insertion_sort cmp run rest = fold (insert_pivot cmp) rest run"

definition v8_sort :: "('a \<Rightarrow> 'a \<Rightarrow> int option) \<Rightarrow> 'a list \<Rightarrow> 'a list" where
  "v8_sort cmp xs =
     (case count_and_make_run cmp xs of (run, rest) \<Rightarrow> binary_insertion_sort cmp run rest)"

definition test_runtime :: runtime where
  "test_runtime =
     \<lparr>clock = 1730592000000, Date_parse = (\<lambda>s. None), render = (\<lambda>v. ''[object]''),
      Array_sort = v8_sort\<rparr>"




section \<open>The request handlers (src/server/controllers/user.controller.ts)\<close>

text \<open>
  A request carries a body, which may be missing, and the path parameters. The response
  object is a parameter: \<open>res status payload\<close> is \<open>res.status(status).send(payload)\<close> or
  \<open>.json(payload)\<close>, a step on the state of the response that may raise. A handler runs
  on the store and the response together; when its \<open>catch\<close> clause raises too, the
  handler's promise is rejected (\<open>Inl\<close>).
\<close>

datatype payload = Text string | Json jsobj

record request =
  body :: "jsobj option"
  params :: jsobj

type_synonym 'r res = "nat \<Rightarrow> payload \<Rightarrow> ('r, unit) step"

definition on_store :: "('st \<Rightarrow> 'a \<times> 'st) \<Rightarrow> ('st \<times> 'r, 'a) step" where
  "on_store f = (\<lambda>(s, r). case f s of (x, s') \<Rightarrow> (Inr x, (s', r)))"

definition on_res :: "('r, 'a) step \<Rightarrow> ('st \<times> 'r, 'a) step" where
  "on_res m = (\<lambda>(s, r). case m r of (x, r') \<Rightarrow> (x, (s, r')))"

definition try_catch_with :: "('s, 'a) step \<Rightarrow> ('s, 'a) step \<Rightarrow> ('s, 'a) step" where
  "try_catch_with block handler s =
     (case block s of (Inl e, s') \<Rightarrow> handler s' | (Inr x, s') \<Rightarrow> (Inr x, s'))"

definition getUser :: "'st user_model \<Rightarrow> 'r res \<Rightarrow> request \<Rightarrow> ('st \<times> 'r, unit) step" where
  "getUser M res req =
     try_catch_with
       (let uname = opt_field (body req) ''username''
        in await (if \<not> truthy uname
                  then on_res (res 400 (Text ''Invalid username is required''))
                  else ret ()) (\<lambda>_.
           await (on_store (getUserByUsername M uname)) (\<lambda>resp.
           if in_obj ''error'' resp then on_res (res 500 (Json resp))
           else on_res (res 200 (Json resp)))))
       (on_res (res 500 (Text ''Error when fetching user'')))"

definition deleteUser :: "'st user_model \<Rightarrow> 'r res \<Rightarrow> request \<Rightarrow> ('st \<times> 'r, unit) step" where
  "deleteUser M res req =
     try_catch_with
       (let uname = opt_field (body req) ''username''
        in await (if \<not> truthy uname
                  then on_res (res 400 (Text ''Invalid username is required''))
                  else ret ()) (\<lambda>_.
           await (on_store (deleteUserByUsername M uname)) (\<lambda>resp.
           if in_obj ''error'' resp then on_res (res 500 (Json resp))
           else on_res (res 200 (Json resp)))))
       (on_res (res 500 (Text ''Error when deleting user'')))"

text \<open>A response object that records every payload sent through it.\<close>

definition res_log :: "((nat \<times> payload) list) res" where
  "res_log status p log = (Inr (), log @ [(status, p)])"

section \<open>Properties of the user service\<close>

lemmas step_defs = try_catch_def await_def eval_def ret_def

lemma no_password_response: "user_response r \<Longrightarrow> \<not> in_obj ''password'' r"
  by (auto simp: user_response_def in_obj_def keys_def)

lemma saveUser_response: "user_response (fst (saveUser M now user s))"
  by (auto simp: saveUser_def step_defs user_response_def keys_def toSafeUser_def errorResp_def
      split: sum.splits option.splits prod.splits)

lemma getUserByUsername_response: "user_response (fst (getUserByUsername M n s))"
  by (auto simp: getUserByUsername_def step_defs user_response_def keys_def toSafeUser_def errorResp_def
      split: sum.splits option.splits prod.splits)

lemma loginUser_response: "user_response (fst (loginUser M c s))"
  by (auto simp: loginUser_def step_defs user_response_def keys_def toSafeUser_def errorResp_def
      split: sum.splits option.splits prod.splits)

lemma deleteUserByUsername_response: "user_response (fst (deleteUserByUsername M n s))"
  by (auto simp: deleteUserByUsername_def step_defs user_response_def keys_def toSafeUser_def errorResp_def
      split: sum.splits option.splits prod.splits)

lemma updateUser_response: "user_response (fst (updateUser M n u s))"
  by (auto simp: updateUser_def step_defs user_response_def keys_def toSafeUser_def errorResp_def
      split: sum.splits option.splits prod.splits)

text \<open>
  C1. For every user object \<open>u\<close>, whatever fields it has or lacks, \<open>toSafeUser u\<close> is exactly
  the object with the keys \<open>_id\<close>, \<open>username\<close> and \<open>dateJoined\<close> read from \<open>u\<close>, and it has
  no \<open>password\<close> key. Every response of \<open>saveUser\<close>, \<open>getUserByUsername\<close>, \<open>loginUser\<close>,
  \<open>deleteUserByUsername\<close> and \<open>updateUser\<close>, for every adapter, input and store state, has
  either the one key \<open>error\<close> or exactly the three keys of such a projection, so none has
  a \<open>password\<close> key.
\<close>

theorem toSafeUser_projection:
  "toSafeUser u = [(''_id'', field u ''_id''), (''username'', field u ''username''),
                   (''dateJoined'', field u ''dateJoined'')]
   \<and> \<not> in_obj ''password'' (toSafeUser u)
   \<and> user_response (fst (saveUser M now user s))
   \<and> \<not> in_obj ''password'' (fst (saveUser M now user s))
   \<and> user_response (fst (getUserByUsername M name s))
   \<and> \<not> in_obj ''password'' (fst (getUserByUsername M name s))
   \<and> user_response (fst (loginUser M creds s))
   \<and> \<not> in_obj ''password'' (fst (loginUser M creds s))
   \<and> user_response (fst (deleteUserByUsername M name s))
   \<and> \<not> in_obj ''password'' (fst (deleteUserByUsername M name s))
   \<and> user_response (fst (updateUser M name updates s))
   \<and> \<not> in_obj ''password'' (fst (updateUser M name updates s))"
proof -
  have proj: "toSafeUser u = [(''_id'', field u ''_id''), (''username'', field u ''username''),
                   (''dateJoined'', field u ''dateJoined'')]"
    by (simp add: toSafeUser_def)
  have safe: "\<not> in_obj ''password'' (toSafeUser u)"
    by (simp add: toSafeUser_def in_obj_def)
  show ?thesis
    by (intro conjI proj safe saveUser_response getUserByUsername_response loginUser_response
        deleteUserByUsername_response updateUser_response no_password_response)
qed

text \<open>
  C4. No user operation lets an exception through. Whenever a call of the adapter raises
  (\<open>findOne\<close> or \<open>create\<close> in \<open>saveUser\<close>, \<open>findOne\<close> in \<open>getUserByUsername\<close> and
  \<open>loginUser\<close>, \<open>findOneAndDelete\<close>, \<open>findOneAndUpdate\<close>), with whatever exception \<open>e\<close>, the
  operation returns its own fixed message: Failed to create user, Failed to get user,
  Failed to login, Failed to delete user, Failed to update user. The same holds when the
  input itself makes the body raise (a name or password that is not a string, a missing
  update object).
\<close>

theorem user_service_never_propagates:
  "(opt_trim (opt_field user ''username'') = Inr un \<longrightarrow> opt_trim (opt_field user ''password'') = Inr pw \<longrightarrow>
      findOne M [(''username'', un)] s = (Inl e, sa) \<longrightarrow>
      saveUser M now user s = (errorResp ''Failed to create user'', sa))
   \<and> (opt_trim (opt_field user ''username'') = Inr un \<longrightarrow> opt_trim (opt_field user ''password'') = Inr pw \<longrightarrow>
      findOne M [(''username'', un)] s = (Inr None, sa) \<longrightarrow>
      create M [(''username'', un), (''password'', pw), (''dateJoined'', JDate (Some now))] sa = (Inl e, sb) \<longrightarrow>
      saveUser M now user s = (errorResp ''Failed to create user'', sb))
   \<and> (opt_trim name = Inr u \<longrightarrow> findOne M [(''username'', u)] s = (Inl e, sa) \<longrightarrow>
      getUserByUsername M name s = (errorResp ''Failed to get user'', sa))
   \<and> (opt_trim (opt_field user ''username'') = Inr un \<longrightarrow> opt_trim (opt_field user ''password'') = Inr pw \<longrightarrow>
      findOne M [(''username'', un)] s = (Inl e, sa) \<longrightarrow>
      loginUser M user s = (errorResp ''Failed to login'', sa))
   \<and> (opt_trim name = Inr u \<longrightarrow> findOneAndDelete M [(''username'', u)] s = (Inl e, sa) \<longrightarrow>
      deleteUserByUsername M name s = (errorResp ''Failed to delete user'', sa))
   \<and> (opt_trim name = Inr u \<longrightarrow> build_patch updates = Inr patch \<longrightarrow>
      findOneAndUpdate M [(''username'', u)] patch s = (Inl e, sa) \<longrightarrow>
      updateUser M name updates s = (errorResp ''Failed to update user'', sa))
   \<and> (isl (opt_trim (opt_field user ''username'')) \<or> isl (opt_trim (opt_field user ''password'')) \<longrightarrow>
      saveUser M now user s = (errorResp ''Failed to create user'', s)
      \<and> loginUser M user s = (errorResp ''Failed to login'', s))
   \<and> (isl (opt_trim name) \<longrightarrow>
      getUserByUsername M name s = (errorResp ''Failed to get user'', s)
      \<and> deleteUserByUsername M name s = (errorResp ''Failed to delete user'', s))
   \<and> (isl (opt_trim name) \<or> isl (build_patch updates) \<longrightarrow>
      updateUser M name updates s = (errorResp ''Failed to update user'', s))"
proof -
  have save1: "opt_trim (opt_field user ''username'') = Inr un \<longrightarrow> opt_trim (opt_field user ''password'') = Inr pw \<longrightarrow>
      findOne M [(''username'', un)] s = (Inl e, sa) \<longrightarrow>
      saveUser M now user s = (errorResp ''Failed to create user'', sa)"
    by (simp add: saveUser_def step_defs)
  have save2: "opt_trim (opt_field user ''username'') = Inr un \<longrightarrow> opt_trim (opt_field user ''password'') = Inr pw \<longrightarrow>
      findOne M [(''username'', un)] s = (Inr None, sa) \<longrightarrow>
      create M [(''username'', un), (''password'', pw), (''dateJoined'', JDate (Some now))] sa = (Inl e, sb) \<longrightarrow>
      saveUser M now user s = (errorResp ''Failed to create user'', sb)"
    by (simp add: saveUser_def step_defs)
  have get1: "opt_trim name = Inr u \<longrightarrow> findOne M [(''username'', u)] s = (Inl e, sa) \<longrightarrow>
      getUserByUsername M name s = (errorResp ''Failed to get user'', sa)"
    by (simp add: getUserByUsername_def step_defs)
  have login1: "opt_trim (opt_field user ''username'') = Inr un \<longrightarrow> opt_trim (opt_field user ''password'') = Inr pw \<longrightarrow>
      findOne M [(''username'', un)] s = (Inl e, sa) \<longrightarrow>
      loginUser M user s = (errorResp ''Failed to login'', sa)"
    by (simp add: loginUser_def step_defs)
  have del1: "opt_trim name = Inr u \<longrightarrow> findOneAndDelete M [(''username'', u)] s = (Inl e, sa) \<longrightarrow>
      deleteUserByUsername M name s = (errorResp ''Failed to delete user'', sa)"
    by (simp add: deleteUserByUsername_def step_defs)
  have upd1: "opt_trim name = Inr u \<longrightarrow> build_patch updates = Inr patch \<longrightarrow>
      findOneAndUpdate M [(''username'', u)] patch s = (Inl e, sa) \<longrightarrow>
      updateUser M name updates s = (errorResp ''Failed to update user'', sa)"
    by (simp add: updateUser_def step_defs)
  have ty1: "isl (opt_trim (opt_field user ''username'')) \<or> isl (opt_trim (opt_field user ''password'')) \<longrightarrow>
      saveUser M now user s = (errorResp ''Failed to create user'', s)
      \<and> loginUser M user s = (errorResp ''Failed to login'', s)"
    by (auto simp: saveUser_def loginUser_def step_defs isl_def split: sum.splits)
  have ty2: "isl (opt_trim name) \<longrightarrow>
      getUserByUsername M name s = (errorResp ''Failed to get user'', s)
      \<and> deleteUserByUsername M name s = (errorResp ''Failed to delete user'', s)"
    by (auto simp: getUserByUsername_def deleteUserByUsername_def step_defs isl_def)
  have ty3: "isl (opt_trim name) \<or> isl (build_patch updates) \<longrightarrow>
      updateUser M name updates s = (errorResp ''Failed to update user'', s)"
    by (auto simp: updateUser_def step_defs isl_def split: sum.splits)
  show ?thesis
    by (intro conjI save1 save2 get1 login1 del1 upd1 ty1 ty2 ty3)
qed

theorem user_service_never_propagates_witness:
  "saveUser broken_store 0 (Some alice) () = (errorResp ''Failed to create user'', ())
   \<and> saveUser readonly_store 0 (Some alice) () = (errorResp ''Failed to create user'', ())
   \<and> getUserByUsername broken_store (JStr ''alice'') () = (errorResp ''Failed to get user'', ())
   \<and> loginUser broken_store (Some alice) () = (errorResp ''Failed to login'', ())
   \<and> deleteUserByUsername broken_store (JStr ''alice'') () = (errorResp ''Failed to delete user'', ())
   \<and> updateUser broken_store (JStr ''alice'') (Some [(''password'', JStr ''new'')]) ()
       = (errorResp ''Failed to update user'', ())
   \<and> updateUser broken_store (JNum 7) None () = (errorResp ''Failed to update user'', ())"
proof -
  have tu: "opt_trim (opt_field (Some alice) ''username'') = Inr (JStr ''alice'')"
    by (simp add: alice_def opt_field_def field_def trim_def isWhiteSpace_def)
  have tp: "opt_trim (opt_field (Some alice) ''password'') = Inr (JStr ''secret'')"
    by (simp add: alice_def opt_field_def field_def trim_def isWhiteSpace_def)
  have tn: "opt_trim (JStr ''alice'') = Inr (JStr ''alice'')"
    by (simp add: trim_def isWhiteSpace_def)
  have bp: "build_patch (Some [(''password'', JStr ''new'')]) = Inr [(''password'', JStr ''new'')]"
    by (simp add: build_patch_def patch_field_def field_def trim_def isWhiteSpace_def)
  have f1: "findOne broken_store [(''username'', JStr ''alice'')] () = (Inl (StoreError driver_text), ())"
    by (simp add: broken_store_def)
  have f2: "findOne readonly_store [(''username'', JStr ''alice'')] () = (Inr None, ())"
    by (simp add: readonly_store_def)
  have c2: "create readonly_store [(''username'', JStr ''alice''), (''password'', JStr ''secret''),
              (''dateJoined'', JDate (Some 0))] () = (Inl (StoreError driver_text), ())"
    by (simp add: readonly_store_def)
  have d1: "findOneAndDelete broken_store [(''username'', JStr ''alice'')] () = (Inl (StoreError driver_text), ())"
    by (simp add: broken_store_def)
  have u1: "findOneAndUpdate broken_store [(''username'', JStr ''alice'')] [(''password'', JStr ''new'')] ()
      = (Inl (StoreError driver_text), ())"
    by (simp add: broken_store_def)
  have ty: "isl (opt_trim (JNum 7))"
    by simp
  note A = user_service_never_propagates [where M = broken_store and user = "Some alice"
      and un = "JStr ''alice''" and pw = "JStr ''secret''" and s = "()" and sa = "()"
      and e = "StoreError driver_text" and name = "JStr ''alice''" and u = "JStr ''alice''"
      and updates = "Some [(''password'', JStr ''new'')]" and patch = "[(''password'', JStr ''new'')]"
      and now = 0]
  note B = user_service_never_propagates [where M = readonly_store and user = "Some alice"
      and un = "JStr ''alice''" and pw = "JStr ''secret''" and s = "()" and sa = "()" and sb = "()"
      and e = "StoreError driver_text" and now = 0]
  note C = user_service_never_propagates [where M = broken_store and name = "JNum 7"
      and updates = None and s = "()"]
  have w1: "saveUser broken_store 0 (Some alice) () = (errorResp ''Failed to create user'', ())"
    using A tu tp f1 by simp
  have w2: "saveUser readonly_store 0 (Some alice) () = (errorResp ''Failed to create user'', ())"
    using B tu tp f2 c2 by simp
  have w3: "getUserByUsername broken_store (JStr ''alice'') () = (errorResp ''Failed to get user'', ())"
    using A tn f1 by simp
  have w4: "loginUser broken_store (Some alice) () = (errorResp ''Failed to login'', ())"
    using A tu tp f1 by simp
  have w5: "deleteUserByUsername broken_store (JStr ''alice'') () = (errorResp ''Failed to delete user'', ())"
    using A tn d1 by simp
  have w6: "updateUser broken_store (JStr ''alice'') (Some [(''password'', JStr ''new'')]) ()
       = (errorResp ''Failed to update user'', ())"
    using A tn bp u1 by simp
  have w7: "updateUser broken_store (JNum 7) None () = (errorResp ''Failed to update user'', ())"
    using C ty by simp
  show ?thesis
    by (intro conjI w1 w2 w3 w4 w5 w6 w7)
qed

lemma opt_trim_falsy:
  "opt_trim v = Inr t \<Longrightarrow> \<not> truthy t \<Longrightarrow> t = JUndefined \<or> t = JStr []"
  by (cases v) auto

text \<open>
  C2, as amended. \<open>loginUser\<close> has no guard for blank input: it looks the trimmed username
  up like any other. When the username or the password is empty after trimming (or
  absent), and the lookup raises nothing and answers with no record or with a stored user
  of that name whose username and password are non-empty, the result is Invalid
  credentials.
\<close>

theorem loginUser_blank:
  assumes tu: "opt_trim (opt_field creds ''username'') = Inr un"
      and tp: "opt_trim (opt_field creds ''password'') = Inr pw"
      and blank: "\<not> truthy un \<or> \<not> truthy pw"
      and look: "findOne M [(''username'', un)] s = (Inr doc, sa)"
      and doc: "doc = None \<or> (\<exists>d. doc = Some d \<and> stored_user un d)"
  shows "loginUser M creds s = (errorResp ''Invalid credentials'', sa)"
proof (cases doc)
  case None
  with tu tp look show ?thesis
    by (simp add: loginUser_def step_defs)
next
  case (Some d)
  with doc have sd: "stored_user un d" by simp
  then have nu: "truthy un"
    by (auto simp: stored_user_def nonempty_string_def split: jsval.splits)
  with blank have "\<not> truthy pw" by simp
  with tp have "pw = JUndefined \<or> pw = JStr []" by (rule opt_trim_falsy)
  moreover from sd obtain p where "field d ''password'' = JStr p" "p \<noteq> []"
    by (auto simp: stored_user_def nonempty_string_def split: jsval.splits)
  ultimately have "\<not> strict_eq (field d ''password'') pw" by auto
  with tu tp look Some show ?thesis
    by (simp add: loginUser_def step_defs)
qed

theorem loginUser_blank_witness:
  "loginUser user_collection (Some [(''username'', JStr ''alice''), (''password'', JStr ''   '')])
     alice_store = (errorResp ''Invalid credentials'', alice_store)
   \<and> loginUser user_collection (Some [(''username'', JStr ''  ''), (''password'', JStr ''secret'')])
     alice_store = (errorResp ''Invalid credentials'', alice_store)"
proof -
  let ?d = "[(''_id'', JObjectId 0), (''username'', JStr ''alice''),
             (''password'', JStr ''secret''), (''dateJoined'', JDate (Some 1733184000000))]"
  have tu: "opt_trim (opt_field (Some [(''username'', JStr ''alice''), (''password'', JStr ''   '')]) ''username'')
      = Inr (JStr ''alice'')"
    by (simp add: opt_field_def field_def trim_def isWhiteSpace_def)
  have tp: "opt_trim (opt_field (Some [(''username'', JStr ''alice''), (''password'', JStr ''   '')]) ''password'')
      = Inr (JStr [])"
    by (simp add: opt_field_def field_def trim_def isWhiteSpace_def)
  have look: "findOne user_collection [(''username'', JStr ''alice'')] alice_store = (Inr (Some ?d), alice_store)"
    by (simp add: user_collection_def store_findOne_def alice_store_def matches_def field_def)
  have sd: "Some ?d = None \<or> (\<exists>d. Some ?d = Some d \<and> stored_user (JStr ''alice'') d)"
    by (simp add: stored_user_def field_def nonempty_string_def)
  have blank: "\<not> truthy (JStr ''alice'') \<or> \<not> truthy (JStr [])" by simp
  have tu2: "opt_trim (opt_field (Some [(''username'', JStr ''  ''), (''password'', JStr ''secret'')]) ''username'')
      = Inr (JStr [])"
    by (simp add: opt_field_def field_def trim_def isWhiteSpace_def)
  have tp2: "opt_trim (opt_field (Some [(''username'', JStr ''  ''), (''password'', JStr ''secret'')]) ''password'')
      = Inr (JStr ''secret'')"
    by (simp add: opt_field_def field_def trim_def isWhiteSpace_def)
  have look2: "findOne user_collection [(''username'', JStr [])] alice_store = (Inr None, alice_store)"
    by (simp add: user_collection_def store_findOne_def alice_store_def matches_def field_def)
  have blank2: "\<not> truthy (JStr []) \<or> \<not> truthy (JStr ''secret'')" by simp
  have sd2: "(None :: jsobj option) = None \<or> (\<exists>d. None = Some d \<and> stored_user (JStr []) d)" by simp
  show ?thesis
    using loginUser_blank [OF tu tp blank look sd] loginUser_blank [OF tu2 tp2 blank2 look2 sd2]
    by (intro conjI)
qed

text \<open>
  The claim of C2 says that blank credentials never reach the store. On the adapter that
  records its lookups, a login with an empty username leaves one lookup in the record.
\<close>

theorem loginUser_blank_lookup_counterexample:
  "loginUser lookup_log (Some [(''username'', JStr []), (''password'', JStr ''x'')]) []
     = (errorResp ''Invalid credentials'', [[(''username'', JStr [])]])
   \<and> snd (loginUser lookup_log (Some [(''username'', JStr []), (''password'', JStr ''x'')]) []) \<noteq> []"
  by (simp add: loginUser_def step_defs lookup_log_def opt_field_def field_def trim_def)

section \<open>The user service on the user collection\<close>

lemma find_snoc:
  "find P (xs @ [y])
     = (case find P xs of None \<Rightarrow> (if P y then Some y else None) | Some x \<Rightarrow> Some x)"
  by (induction xs) auto

lemma matches_username: "matches [(''username'', un)] d = (field d ''username'' = un)"
  by (simp add: matches_def)

lemma find_None_no_match: "find P xs = None \<Longrightarrow> \<not> list_ex P xs"
  by (induction xs) (auto split: if_splits)

lemma saveUser_collection_first:
  assumes name: "opt_field user ''username'' = JStr a" and name_ok: "trim a \<noteq> []"
      and pass: "opt_field user ''password'' = JStr p" and pass_ok: "trim p \<noteq> []"
  shows "(find (matches [(''username'', JStr (trim a))]) (docs st) \<noteq> None \<longrightarrow>
            saveUser user_collection now user st = (errorResp ''Username already exists'', st))
       \<and> (find (matches [(''username'', JStr (trim a))]) (docs st) = None \<longrightarrow>
            saveUser user_collection now user st
              = (toSafeUser [(''_id'', JObjectId (next_id st)), (''username'', JStr (trim a)),
                             (''password'', JStr (trim p)), (''dateJoined'', JDate (Some now))],
                 \<lparr>docs = docs st @ [[(''_id'', JObjectId (next_id st)), (''username'', JStr (trim a)),
                                     (''password'', JStr (trim p)), (''dateJoined'', JDate (Some now))]],
                  next_id = Suc (next_id st)\<rparr>))"
proof -
  let ?obj = "[(''username'', JStr (trim a)), (''password'', JStr (trim p)),
               (''dateJoined'', JDate (Some now))]"
  have fo: "field ?obj ''username'' = JStr (trim a)" "field ?obj ''password'' = JStr (trim p)"
    "field ?obj ''dateJoined'' = JDate (Some now)"
    by (simp_all add: field_def)
  have taken: "find (matches [(''username'', JStr (trim a))]) (docs st) \<noteq> None \<longrightarrow>
            saveUser user_collection now user st = (errorResp ''Username already exists'', st)"
    using name pass
    by (auto simp: saveUser_def step_defs user_collection_def store_findOne_def)
  have fresh: "find (matches [(''username'', JStr (trim a))]) (docs st) = None \<longrightarrow>
            saveUser user_collection now user st
              = (toSafeUser [(''_id'', JObjectId (next_id st)), (''username'', JStr (trim a)),
                             (''password'', JStr (trim p)), (''dateJoined'', JDate (Some now))],
                 \<lparr>docs = docs st @ [[(''_id'', JObjectId (next_id st)), (''username'', JStr (trim a)),
                                     (''password'', JStr (trim p)), (''dateJoined'', JDate (Some now))]],
                  next_id = Suc (next_id st)\<rparr>)"
  proof
    assume none: "find (matches [(''username'', JStr (trim a))]) (docs st) = None"
    then have "\<not> list_ex (matches [(''username'', JStr (trim a))]) (docs st)"
      by (rule find_None_no_match)
    then have uniq: "\<not> list_ex (\<lambda>d. field d ''username'' = field ?obj ''username'') (docs st)"
      by (simp add: list_ex_iff matches_username fo)
    have cr: "store_create ?obj st
        = (Inr [(''_id'', JObjectId (next_id st)), (''username'', JStr (trim a)),
                (''password'', JStr (trim p)), (''dateJoined'', JDate (Some now))],
           \<lparr>docs = docs st @ [[(''_id'', JObjectId (next_id st)), (''username'', JStr (trim a)),
                               (''password'', JStr (trim p)), (''dateJoined'', JDate (Some now))]],
            next_id = Suc (next_id st)\<rparr>)"
      using uniq name_ok pass_ok
      by (simp add: store_create_def fo nonempty_string_def valid_date_def Let_def)
    show "saveUser user_collection now user st
              = (toSafeUser [(''_id'', JObjectId (next_id st)), (''username'', JStr (trim a)),
                             (''password'', JStr (trim p)), (''dateJoined'', JDate (Some now))],
                 \<lparr>docs = docs st @ [[(''_id'', JObjectId (next_id st)), (''username'', JStr (trim a)),
                                     (''password'', JStr (trim p)), (''dateJoined'', JDate (Some now))]],
                  next_id = Suc (next_id st)\<rparr>)"
      using name pass none cr
      by (simp add: saveUser_def step_defs user_collection_def store_findOne_def)
  qed
  show ?thesis
    by (intro conjI taken fresh)
qed

text \<open>
  C3. On the user collection, in any state: a call of \<open>saveUser\<close> with a username and a
  password that are strings and not blank after trimming does not fail. When the trimmed
  name is taken it answers Username already exists and leaves the collection as it is;
  otherwise it stores one new user, with the trimmed name, the trimmed password and the
  clock's date, and answers with its safe projection. A call that follows immediately
  with the same username and any string password (or none) answers Username already
  exists and leaves the collection unchanged: it creates no record.
\<close>

theorem saveUser_twice:
  assumes name: "opt_field user ''username'' = JStr a" and name_ok: "trim a \<noteq> []"
      and pass: "opt_field user ''password'' = JStr p" and pass_ok: "trim p \<noteq> []"
      and same: "opt_field user' ''username'' = JStr a"
      and pass': "opt_trim (opt_field user' ''password'') = Inr pw'"
  shows "fst (saveUser user_collection now user st) \<noteq> errorResp ''Failed to create user''
    \<and> (find (matches [(''username'', JStr (trim a))]) (docs st) \<noteq> None \<longrightarrow>
          saveUser user_collection now user st = (errorResp ''Username already exists'', st))
    \<and> (find (matches [(''username'', JStr (trim a))]) (docs st) = None \<longrightarrow>
          saveUser user_collection now user st
            = (toSafeUser [(''_id'', JObjectId (next_id st)), (''username'', JStr (trim a)),
                           (''password'', JStr (trim p)), (''dateJoined'', JDate (Some now))],
               \<lparr>docs = docs st @ [[(''_id'', JObjectId (next_id st)), (''username'', JStr (trim a)),
                                   (''password'', JStr (trim p)), (''dateJoined'', JDate (Some now))]],
                next_id = Suc (next_id st)\<rparr>))
    \<and> saveUser user_collection now' user' (snd (saveUser user_collection now user st))
        = (errorResp ''Username already exists'', snd (saveUser user_collection now user st))"
proof -
  let ?flt = "[(''username'', JStr (trim a))]"
  let ?doc = "[(''_id'', JObjectId (next_id st)), (''username'', JStr (trim a)),
               (''password'', JStr (trim p)), (''dateJoined'', JDate (Some now))]"
  let ?first = "saveUser user_collection now user st"
  note first = saveUser_collection_first [OF name name_ok pass pass_ok, of st now]
  have taken: "find (matches ?flt) (docs st) \<noteq> None \<longrightarrow> ?first = (errorResp ''Username already exists'', st)"
    using first by (rule conjunct1)
  have fresh: "find (matches ?flt) (docs st) = None \<longrightarrow>
      ?first = (toSafeUser ?doc, \<lparr>docs = docs st @ [?doc], next_id = Suc (next_id st)\<rparr>)"
    using first by (rule conjunct2)
  have differ: "errorResp ''Username already exists'' \<noteq> errorResp ''Failed to create user''"
    "toSafeUser ?doc \<noteq> errorResp ''Failed to create user''"
    by (simp_all add: errorResp_def toSafeUser_def)
  have ok: "fst ?first \<noteq> errorResp ''Failed to create user''"
  proof (cases "find (matches ?flt) (docs st)")
    case None
    with fresh differ show ?thesis by simp
  next
    case (Some d)
    with taken differ show ?thesis by simp
  qed
  have found: "\<exists>d. find (matches ?flt) (docs (snd ?first)) = Some d"
  proof (cases "find (matches ?flt) (docs st)")
    case None
    have "field ?doc ''username'' = JStr (trim a)" by (simp add: field_def)
    then have "find (matches ?flt) (docs st @ [?doc]) = Some ?doc"
      using None by (simp add: find_snoc matches_username)
    with None fresh show ?thesis by simp
  next
    case (Some d)
    with taken show ?thesis by simp
  qed
  then obtain d where d: "find (matches ?flt) (docs (snd ?first)) = Some d" ..
  from same have "opt_trim (opt_field user' ''username'') = Inr (JStr (trim a))" by simp
  with pass' d have second: "saveUser user_collection now' user' (snd ?first)
      = (errorResp ''Username already exists'', snd ?first)"
    by (simp add: saveUser_def step_defs user_collection_def store_findOne_def)
  show ?thesis
    by (intro conjI ok taken fresh second)
qed

theorem saveUser_twice_witness:
  "saveUser user_collection 1733184000000
      (Some [(''username'', JStr '' alice''), (''password'', JStr ''secret '')]) empty_store
     = ([(''_id'', JObjectId 0), (''username'', JStr ''alice''),
         (''dateJoined'', JDate (Some 1733184000000))], alice_store)
   \<and> saveUser user_collection 1733270400000
      (Some [(''username'', JStr '' alice''), (''password'', JStr ''other'')]) alice_store
     = (errorResp ''Username already exists'', alice_store)
   \<and> saveUser user_collection 1733356800000
      (Some [(''username'', JStr '' alice''), (''password'', JStr ''third'')]) alice_store
     = (errorResp ''Username already exists'', alice_store)"
proof -
  let ?u = "Some [(''username'', JStr '' alice''), (''password'', JStr ''secret '')]"
  let ?v = "Some [(''username'', JStr '' alice''), (''password'', JStr ''other'')]"
  let ?w = "Some [(''username'', JStr '' alice''), (''password'', JStr ''third'')]"
  let ?r = "[(''_id'', JObjectId 0), (''username'', JStr ''alice''),
         (''dateJoined'', JDate (Some 1733184000000))]"
  have name: "opt_field ?u ''username'' = JStr '' alice''"
    and pass: "opt_field ?u ''password'' = JStr ''secret ''"
    and same: "opt_field ?v ''username'' = JStr '' alice''"
    and passv: "opt_field ?v ''password'' = JStr ''other''"
    and samew: "opt_field ?w ''username'' = JStr '' alice''"
    by (simp_all add: opt_field_def field_def)
  have ta: "trim '' alice'' = ''alice''" and tp: "trim ''secret '' = ''secret''"
    and tv: "trim ''other'' = ''other''"
    by (simp_all add: trim_def isWhiteSpace_def)
  have name_ok: "trim '' alice'' \<noteq> []" and pass_ok: "trim ''secret '' \<noteq> []"
    and passv_ok: "trim ''other'' \<noteq> []"
    by (simp_all add: ta tp tv)
  have pv: "opt_trim (opt_field ?v ''password'') = Inr (JStr ''other'')"
    by (simp add: passv tv)
  have pw: "opt_trim (opt_field ?w ''password'') = Inr (JStr ''third'')"
    by (simp add: opt_field_def field_def trim_def isWhiteSpace_def)
  have none: "find (matches [(''username'', JStr (trim '' alice''))]) (docs empty_store) = None"
    by (simp add: empty_store_def)
  have some: "find (matches [(''username'', JStr (trim '' alice''))]) (docs alice_store) \<noteq> None"
    by (simp add: ta alice_store_def matches_def field_def)
  note A = saveUser_twice [OF name name_ok pass pass_ok same pv,
      where st = empty_store and now = 1733184000000 and now' = 1733270400000]
  note B = saveUser_twice [OF same name_ok passv passv_ok samew pw,
      where st = alice_store and now = 1733270400000 and now' = 1733356800000]
  have first: "saveUser user_collection 1733184000000 ?u empty_store = (?r, alice_store)"
    using A none
    by (simp add: ta tp toSafeUser_def field_def empty_store_def alice_store_def)
  have second: "saveUser user_collection 1733270400000 ?v alice_store
      = (errorResp ''Username already exists'', alice_store)"
    using A first by simp
  have third: "saveUser user_collection 1733356800000 ?w alice_store
      = (errorResp ''Username already exists'', alice_store)"
    using B some second by simp
  show ?thesis
    by (intro conjI first second third)
qed

lemma map_of_overwrite_same:
  "map_of (map (\<lambda>(k', v'). if k' = k then (k', v) else (k', v')) d) k
     = map_option (\<lambda>_. v) (map_of d k)"
  by (induction d) auto

lemma map_of_overwrite_other:
  "x \<noteq> k \<Longrightarrow> map_of (map (\<lambda>(k', v'). if k' = k then (k', v) else (k', v')) d) x = map_of d x"
  by (induction d) auto

lemma field_set_field: "field (set_field k v d) x = (if x = k then v else field d x)"
proof (cases "in_obj k d")
  case True
  then obtain w where "map_of d k = Some w"
    by (cases "map_of d k") (auto simp: in_obj_def map_of_eq_None_iff)
  with True show ?thesis
    by (simp add: set_field_def field_def map_of_overwrite_same map_of_overwrite_other)
next
  case False
  then have "map_of d k = None"
    by (simp add: in_obj_def map_of_eq_None_iff)
  with False show ?thesis
    by (simp add: set_field_def field_def map_add_def split: option.splits)
qed

lemma field_apply_set_one:
  "field (apply_set [(k, v)] d) x = (if x = k then v else field d x)"
  by (simp add: apply_set_def field_set_field)

lemma map_replace_first:
  "(\<And>x. g (f x) = g x) \<Longrightarrow> map g (replace_first P f xs) = map g xs"
  by (induction xs) auto

lemma find_holds: "find P xs = Some x \<Longrightarrow> P x"
  by (induction xs) (auto split: if_splits)

lemma find_replace_first:
  "find P xs = Some d \<Longrightarrow> P (f d) \<Longrightarrow> find P (replace_first P f xs) = Some (f d)"
  by (induction xs) (auto split: if_splits)

lemma patch_field_mem:
  "((k, v) \<in> set (patch_field upd k')) = (k = k' \<and> (\<exists>t. field upd k = JStr t \<and> v = JStr (trim t)))"
  by (cases "field upd k'") (auto simp: patch_field_def)

lemma password_only_patch:
  "field upd ''password'' = JStr p \<Longrightarrow> patch_field upd ''username'' = [] \<Longrightarrow>
   build_patch (Some upd) = Inr [(''password'', JStr (trim p))]"
  by (simp add: build_patch_def patch_field_def)


lemma collection_password_update:
  assumes tn: "opt_trim name = Inr u"
      and pw: "field upd ''password'' = JStr p"
      and nou: "patch_field upd ''username'' = []"
      and run: "updateUser user_collection name (Some upd) st = (r, sa)"
      and succ: "\<not> in_obj ''error'' r"
  shows "\<exists>d. find (matches [(''username'', u)]) (docs st) = Some d \<and> r = toSafeUser d
           \<and> find (matches [(''username'', u)]) (docs sa) = Some (apply_set [(''password'', JStr (trim p))] d)
           \<and> map (\<lambda>d. field d ''username'') (docs sa) = map (\<lambda>d. field d ''username'') (docs st)
           \<and> map (\<lambda>d. field d ''dateJoined'') (docs sa) = map (\<lambda>d. field d ''dateJoined'') (docs st)"
proof -
  let ?patch = "[(''password'', JStr (trim p))]"
  let ?flt = "[(''username'', u)]"
  have bp: "build_patch (Some upd) = Inr ?patch"
    using pw nou by (rule password_only_patch)
  have err: "in_obj ''error'' (errorResp m)" for m
    by (simp add: in_obj_def errorResp_def)
  obtain res sx where fu: "store_findOneAndUpdate ?flt ?patch st = (res, sx)"
    by (cases "store_findOneAndUpdate ?flt ?patch st")
  have unfolded: "updateUser user_collection name (Some upd) st
      = (case res of Inl e \<Rightarrow> (errorResp ''Failed to update user'', sx)
         | Inr None \<Rightarrow> (errorResp ''User not found'', sx)
         | Inr (Some d) \<Rightarrow> (toSafeUser d, sx))"
    using tn bp fu
    by (cases res) (simp_all add: updateUser_def step_defs user_collection_def split: option.splits)
  have "\<exists>d'. res = Inr (Some d') \<and> r = toSafeUser d' \<and> sx = sa"
  proof (cases res)
    case (Inl e)
    with unfolded run succ err show ?thesis by auto
  next
    case (Inr x)
    show ?thesis
    proof (cases x)
      case None
      with Inr unfolded run succ err show ?thesis by auto
    next
      case (Some d')
      with Inr unfolded run show ?thesis by auto
    qed
  qed
  then obtain d' where upd: "store_findOneAndUpdate ?flt ?patch st = (Inr (Some d'), sa)"
    and r: "r = toSafeUser d'"
    using fu by auto
  from upd obtain d where found: "find (matches ?flt) (docs st) = Some d"
    and d': "d' = apply_set ?patch d"
    and sa: "docs sa = replace_first (matches ?flt) (apply_set ?patch) (docs st)"
    by (cases "find (matches ?flt) (docs st)")
      (auto simp: store_findOneAndUpdate_def split: if_splits)
  have same: "toSafeUser d' = toSafeUser d"
    by (simp add: d' toSafeUser_def field_apply_set_one)
  from found have "matches ?flt d"
    by (rule find_holds)
  then have m': "matches ?flt (apply_set ?patch d)"
    by (simp add: matches_username field_apply_set_one)
  have f': "find (matches ?flt) (docs sa) = Some (apply_set ?patch d)"
    using find_replace_first [of "matches ?flt" "docs st" d "apply_set ?patch", OF found m']
    by (simp only: sa)
  have mu: "map (\<lambda>d. field d ''username'') (docs sa) = map (\<lambda>d. field d ''username'') (docs st)"
    unfolding sa by (rule map_replace_first) (simp add: field_apply_set_one)
  have md: "map (\<lambda>d. field d ''dateJoined'') (docs sa) = map (\<lambda>d. field d ''dateJoined'') (docs st)"
    unfolding sa by (rule map_replace_first) (simp add: field_apply_set_one)
  from r same have r': "r = toSafeUser d" by simp
  show ?thesis
    by (intro exI [of _ d] conjI found r' f' mu md)
qed

text \<open>
  C5. For every name that is a string (or absent) and every update object, the patch that
  \<open>updateUser\<close> hands to \<open>findOneAndUpdate\<close>, with the trimmed name as filter, holds
  exactly the keys among \<open>password\<close> and \<open>username\<close> under which the update carries a
  string, each with the trimmed string, and nothing else. When the adapter finds no record
  the result is User not found; when it returns a record the result is its safe
  projection, without a \<open>password\<close> key. On the user collection, after a successful update
  of the password alone, the response is the safe projection of the user as stored before,
  the stored user now carries the trimmed new password, and no stored \<open>username\<close> or
  \<open>dateJoined\<close> has changed.
\<close>

theorem updateUser_patch:
  assumes tn: "opt_trim name = Inr u"
  shows "build_patch (Some upd) = Inr (patch_field upd ''password'' @ patch_field upd ''username'')
    \<and> (((k, v) \<in> set (patch_field upd ''password'' @ patch_field upd ''username''))
         = ((k = ''password'' \<or> k = ''username'') \<and> (\<exists>t. field upd k = JStr t \<and> v = JStr (trim t))))
    \<and> (findOneAndUpdate M [(''username'', u)] (patch_field upd ''password'' @ patch_field upd ''username'') s
          = (Inr None, sa)
        \<longrightarrow> updateUser M name (Some upd) s = (errorResp ''User not found'', sa))
    \<and> (findOneAndUpdate M [(''username'', u)] (patch_field upd ''password'' @ patch_field upd ''username'') s
          = (Inr (Some d), sa)
        \<longrightarrow> updateUser M name (Some upd) s = (toSafeUser d, sa) \<and> \<not> in_obj ''password'' (toSafeUser d))
    \<and> (field upd ''password'' = JStr p \<and> patch_field upd ''username'' = []
        \<and> updateUser user_collection name (Some upd) st = (r, sb) \<and> \<not> in_obj ''error'' r
        \<longrightarrow> \<not> in_obj ''password'' r
          \<and> (\<exists>d. find (matches [(''username'', u)]) (docs st) = Some d \<and> r = toSafeUser d
                \<and> find (matches [(''username'', u)]) (docs sb)
                    = Some (apply_set [(''password'', JStr (trim p))] d))
          \<and> map (\<lambda>d. field d ''username'') (docs sb) = map (\<lambda>d. field d ''username'') (docs st)
          \<and> map (\<lambda>d. field d ''dateJoined'') (docs sb) = map (\<lambda>d. field d ''dateJoined'') (docs st))"
proof -
  let ?patch = "patch_field upd ''password'' @ patch_field upd ''username''"
  have a: "build_patch (Some upd) = Inr ?patch"
    by (simp add: build_patch_def)
  have b: "((k, v) \<in> set ?patch)
         = ((k = ''password'' \<or> k = ''username'') \<and> (\<exists>t. field upd k = JStr t \<and> v = JStr (trim t)))"
    by (auto simp: patch_field_mem)
  have c: "findOneAndUpdate M [(''username'', u)] ?patch s = (Inr None, sa)
        \<longrightarrow> updateUser M name (Some upd) s = (errorResp ''User not found'', sa)"
    using tn a by (simp add: updateUser_def step_defs)
  have d: "findOneAndUpdate M [(''username'', u)] ?patch s = (Inr (Some d), sa)
        \<longrightarrow> updateUser M name (Some upd) s = (toSafeUser d, sa) \<and> \<not> in_obj ''password'' (toSafeUser d)"
    using tn a by (simp add: updateUser_def step_defs toSafeUser_def in_obj_def)
  have e: "field upd ''password'' = JStr p \<and> patch_field upd ''username'' = []
        \<and> updateUser user_collection name (Some upd) st = (r, sb) \<and> \<not> in_obj ''error'' r
        \<longrightarrow> \<not> in_obj ''password'' r
          \<and> (\<exists>d. find (matches [(''username'', u)]) (docs st) = Some d \<and> r = toSafeUser d
                \<and> find (matches [(''username'', u)]) (docs sb)
                    = Some (apply_set [(''password'', JStr (trim p))] d))
          \<and> map (\<lambda>d. field d ''username'') (docs sb) = map (\<lambda>d. field d ''username'') (docs st)
          \<and> map (\<lambda>d. field d ''dateJoined'') (docs sb) = map (\<lambda>d. field d ''dateJoined'') (docs st)"
  proof (intro impI, elim conjE)
    assume pw: "field upd ''password'' = JStr p" and nou: "patch_field upd ''username'' = []"
      and run: "updateUser user_collection name (Some upd) st = (r, sb)" and succ: "\<not> in_obj ''error'' r"
    from collection_password_update [OF tn pw nou run succ] obtain d0
      where f: "find (matches [(''username'', u)]) (docs st) = Some d0" and r: "r = toSafeUser d0"
        and f': "find (matches [(''username'', u)]) (docs sb) = Some (apply_set [(''password'', JStr (trim p))] d0)"
        and mu: "map (\<lambda>d. field d ''username'') (docs sb) = map (\<lambda>d. field d ''username'') (docs st)"
        and md: "map (\<lambda>d. field d ''dateJoined'') (docs sb) = map (\<lambda>d. field d ''dateJoined'') (docs st)"
      by blast
    have "\<not> in_obj ''password'' r"
      by (simp add: r toSafeUser_def in_obj_def)
    with f r f' mu md show "\<not> in_obj ''password'' r
          \<and> (\<exists>d. find (matches [(''username'', u)]) (docs st) = Some d \<and> r = toSafeUser d
                \<and> find (matches [(''username'', u)]) (docs sb)
                    = Some (apply_set [(''password'', JStr (trim p))] d))
          \<and> map (\<lambda>d. field d ''username'') (docs sb) = map (\<lambda>d. field d ''username'') (docs st)
          \<and> map (\<lambda>d. field d ''dateJoined'') (docs sb) = map (\<lambda>d. field d ''dateJoined'') (docs st)"
      by blast
  qed
  show ?thesis
    by (intro conjI a b c d e)
qed

theorem updateUser_patch_witness:
  "updateUser user_collection (JStr ''alice '')
      (Some [(''password'', JStr '' new ''), (''dateJoined'', JNum 3)]) alice_store
     = ([(''_id'', JObjectId 0), (''username'', JStr ''alice''),
         (''dateJoined'', JDate (Some 1733184000000))],
        \<lparr>docs = [[(''_id'', JObjectId 0), (''username'', JStr ''alice''),
                  (''password'', JStr ''new''), (''dateJoined'', JDate (Some 1733184000000))]],
         next_id = 1\<rparr>)
   \<and> map (\<lambda>d. field d ''username'')
        (docs (snd (updateUser user_collection (JStr ''alice '')
           (Some [(''password'', JStr '' new ''), (''dateJoined'', JNum 3)]) alice_store)))
       = map (\<lambda>d. field d ''username'') (docs alice_store)
   \<and> updateUser user_collection (JStr ''bob'')
      (Some [(''password'', JStr '' new ''), (''dateJoined'', JNum 3)]) alice_store
     = (errorResp ''User not found'', alice_store)"
proof -
  let ?upd = "[(''password'', JStr '' new ''), (''dateJoined'', JNum 3)]"
  let ?d = "[(''_id'', JObjectId 0), (''username'', JStr ''alice''),
             (''password'', JStr ''new''), (''dateJoined'', JDate (Some 1733184000000))]"
  let ?r = "[(''_id'', JObjectId 0), (''username'', JStr ''alice''),
             (''dateJoined'', JDate (Some 1733184000000))]"
  let ?sb = "\<lparr>docs = [?d], next_id = 1\<rparr>"
  have tn: "opt_trim (JStr ''alice '') = Inr (JStr ''alice'')"
    by (simp add: trim_def isWhiteSpace_def)
  have tb: "opt_trim (JStr ''bob'') = Inr (JStr ''bob'')"
    by (simp add: trim_def isWhiteSpace_def)
  have patch: "patch_field ?upd ''password'' @ patch_field ?upd ''username'' = [(''password'', JStr ''new'')]"
    by (simp add: patch_field_def field_def trim_def isWhiteSpace_def)
  have fu: "findOneAndUpdate user_collection [(''username'', JStr ''alice'')]
              (patch_field ?upd ''password'' @ patch_field ?upd ''username'') alice_store
            = (Inr (Some ?d), ?sb)"
    unfolding patch
    by (simp add: user_collection_def store_findOneAndUpdate_def alice_store_def matches_def
        field_def apply_set_def set_field_def in_obj_def)
  have fb: "findOneAndUpdate user_collection [(''username'', JStr ''bob'')]
              (patch_field ?upd ''password'' @ patch_field ?upd ''username'') alice_store
            = (Inr None, alice_store)"
    unfolding patch
    by (simp add: user_collection_def store_findOneAndUpdate_def alice_store_def matches_def field_def)
  note A = updateUser_patch [OF tn, where M = user_collection and upd = ?upd and s = alice_store
      and d = ?d and sa = ?sb and st = alice_store and r = ?r and sb = ?sb and p = "'' new ''"]
  note B = updateUser_patch [OF tb, where M = user_collection and upd = ?upd and s = alice_store
      and sa = alice_store]
  have safe: "toSafeUser ?d = ?r"
    by (simp add: toSafeUser_def field_def)
  have w1: "updateUser user_collection (JStr ''alice '') (Some ?upd) alice_store = (?r, ?sb)"
    using A fu safe by simp
  have h1: "field ?upd ''password'' = JStr '' new ''" by (simp add: field_def)
  have h2: "patch_field ?upd ''username'' = []" by (simp add: patch_field_def field_def)
  have h3: "\<not> in_obj ''error'' ?r" by (simp add: in_obj_def)
  have w2: "map (\<lambda>d. field d ''username'') (docs ?sb) = map (\<lambda>d. field d ''username'') (docs alice_store)"
    using A w1 h1 h2 h3 by simp
  have w3: "updateUser user_collection (JStr ''bob'') (Some ?upd) alice_store
      = (errorResp ''User not found'', alice_store)"
    using B fb by simp
  from w2 w1 have w2': "map (\<lambda>d. field d ''username'')
        (docs (snd (updateUser user_collection (JStr ''alice '') (Some ?upd) alice_store)))
       = map (\<lambda>d. field d ''username'') (docs alice_store)"
    by simp
  show ?thesis
    by (intro conjI w1 w2' w3)
qed

section \<open>Properties of the message service\<close>

lemma await_ret: "await m ret = m"
  by (rule ext) (simp add: await_def ret_def split: prod.splits sum.splits)

lemma saveMessage_blank:
  "\<not> truthy (toString_trim rt (opt_field message ''msg''))
     \<or> \<not> truthy (toString_trim rt (opt_field message ''msgFrom''))
   \<Longrightarrow> saveMessage rt M message s = (errorResp ''Invalid message body'', s)"
  by (auto simp: saveMessage_def Let_def try_catch_def ret_def)

lemma saveMessage_create:
  "truthy (toString_trim rt (opt_field message ''msg'')) \<Longrightarrow>
   truthy (toString_trim rt (opt_field message ''msgFrom'')) \<Longrightarrow>
   saveMessage rt M message s =
     try_catch (create_msg M [(''msg'', toString_trim rt (opt_field message ''msg'')),
                              (''msgFrom'', toString_trim rt (opt_field message ''msgFrom'')),
                              (''msgDateTime'', JDate (when_of rt (opt_field message ''msgDateTime'')))])
       (errorResp ''Failed to save message'') s"
  by (simp add: saveMessage_def Let_def await_ret)

text \<open>
  C6. A candidate whose \<open>msg\<close> or \<open>msgFrom\<close> is absent or empty after trimming (for a string,
  \<open>trim\<close> leaves nothing) gets Invalid message body, and the store is left in the state it
  was in, whatever the adapter: no call reaches it. Otherwise \<open>saveMessage\<close> asks the
  adapter to create exactly the trimmed \<open>msg\<close>, the trimmed \<open>msgFrom\<close> and the computed
  timestamp, and the record the adapter returns is the result, as it is.
\<close>

theorem saveMessage_validation:
  "(\<not> truthy (toString_trim rt (JStr m))) = (trim m = [])
   \<and> \<not> truthy (toString_trim rt JUndefined)
   \<and> (\<not> truthy (toString_trim rt (opt_field message ''msg''))
        \<or> \<not> truthy (toString_trim rt (opt_field message ''msgFrom''))
      \<longrightarrow> saveMessage rt M message s = (errorResp ''Invalid message body'', s))
   \<and> (truthy (toString_trim rt (opt_field message ''msg''))
        \<and> truthy (toString_trim rt (opt_field message ''msgFrom''))
        \<and> create_msg M [(''msg'', toString_trim rt (opt_field message ''msg'')),
                         (''msgFrom'', toString_trim rt (opt_field message ''msgFrom'')),
                         (''msgDateTime'', JDate (when_of rt (opt_field message ''msgDateTime'')))] s
            = (Inr created, sa)
      \<longrightarrow> saveMessage rt M message s = (created, sa))"
proof -
  have a: "(\<not> truthy (toString_trim rt (JStr m))) = (trim m = [])"
    by (simp add: toString_trim_def toString_def)
  have b: "\<not> truthy (toString_trim rt JUndefined)"
    by (simp add: toString_trim_def)
  have c: "\<not> truthy (toString_trim rt (opt_field message ''msg''))
        \<or> \<not> truthy (toString_trim rt (opt_field message ''msgFrom''))
      \<longrightarrow> saveMessage rt M message s = (errorResp ''Invalid message body'', s)"
    by (rule impI) (rule saveMessage_blank)
  have d: "truthy (toString_trim rt (opt_field message ''msg''))
        \<and> truthy (toString_trim rt (opt_field message ''msgFrom''))
        \<and> create_msg M [(''msg'', toString_trim rt (opt_field message ''msg'')),
                         (''msgFrom'', toString_trim rt (opt_field message ''msgFrom'')),
                         (''msgDateTime'', JDate (when_of rt (opt_field message ''msgDateTime'')))] s
            = (Inr created, sa)
      \<longrightarrow> saveMessage rt M message s = (created, sa)"
    by (simp add: saveMessage_create try_catch_def)
  show ?thesis
    by (intro conjI a b c d)
qed

theorem saveMessage_validation_witness:
  "saveMessage test_runtime message_log (Some [(''msg'', JStr []), (''msgFrom'', JStr ''User1'')]) []
     = (errorResp ''Invalid message body'', [])
   \<and> saveMessage test_runtime message_log
        (Some [(''msg'', JStr '' Hello ''), (''msgFrom'', JStr ''User1 ''),
               (''msgDateTime'', JDate (Some 1717459200000))]) []
     = ([(''_id'', JObjectId 0), (''msg'', JStr ''Hello''), (''msgFrom'', JStr ''User1''),
         (''msgDateTime'', JDate (Some 1717459200000))],
        [[(''msg'', JStr ''Hello''), (''msgFrom'', JStr ''User1''),
          (''msgDateTime'', JDate (Some 1717459200000))]])"
proof -
  let ?bad = "Some [(''msg'', JStr []), (''msgFrom'', JStr ''User1'')]"
  let ?good = "Some [(''msg'', JStr '' Hello ''), (''msgFrom'', JStr ''User1 ''),
                     (''msgDateTime'', JDate (Some 1717459200000))]"
  let ?obj = "[(''msg'', JStr ''Hello''), (''msgFrom'', JStr ''User1''),
               (''msgDateTime'', JDate (Some 1717459200000))]"
  have blank: "\<not> truthy (toString_trim test_runtime (opt_field ?bad ''msg''))
      \<or> \<not> truthy (toString_trim test_runtime (opt_field ?bad ''msgFrom''))"
    by (simp add: toString_trim_def toString_def opt_field_def field_def trim_def)
  have t1: "toString_trim test_runtime (opt_field ?good ''msg'') = JStr ''Hello''"
    by (simp add: toString_trim_def toString_def opt_field_def field_def trim_def isWhiteSpace_def)
  have t2: "toString_trim test_runtime (opt_field ?good ''msgFrom'') = JStr ''User1''"
    by (simp add: toString_trim_def toString_def opt_field_def field_def trim_def isWhiteSpace_def)
  have t3: "when_of test_runtime (opt_field ?good ''msgDateTime'') = Some 1717459200000"
    by (simp add: when_of_def opt_field_def field_def)
  have cr: "create_msg message_log ?obj [] = (Inr ((''_id'', JObjectId 0) # ?obj), [?obj])"
    by (simp add: message_log_def)
  note A = saveMessage_validation [where rt = test_runtime and M = message_log and message = ?bad
      and s = "[]"]
  note B = saveMessage_validation [where rt = test_runtime and M = message_log and message = ?good
      and s = "[]" and created = "(''_id'', JObjectId 0) # ?obj" and sa = "[?obj]"]
  have w1: "saveMessage test_runtime message_log ?bad [] = (errorResp ''Invalid message body'', [])"
    using A blank by simp
  have w2: "saveMessage test_runtime message_log ?good [] = ((''_id'', JObjectId 0) # ?obj, [?obj])"
    using B t1 t2 t3 cr by simp
  show ?thesis
    by (intro conjI w1 w2)
qed

declare insertion_point.simps [simp del]
















text \<open>
  C8. When the fetch raises, \<open>getMessages\<close> returns the empty list, which is also what it
  returns when the store finds no message.
\<close>

theorem getMessages_error_is_empty:
  "(find_sorted M s = (Inl e, sa) \<longrightarrow> getMessages rt M s = ([], sa))
   \<and> (find_sorted M s = (Inr [], sa) \<longrightarrow> getMessages rt M s = ([], sa))"
  by (simp add: getMessages_def step_defs sort_array_def)

theorem getMessages_error_is_empty_witness:
  "getMessages test_runtime (mock_find (Inl (StoreError ''DB error''))) () = ([], ())
   \<and> getMessages test_runtime (mock_find (Inr [])) () = ([], ())
   \<and> getMessages test_runtime (mock_find (Inl (StoreError ''DB error''))) ()
       = getMessages test_runtime (mock_find (Inr [])) ()"
proof -
  have f1: "find_sorted (mock_find (Inl (StoreError ''DB error''))) () = (Inl (StoreError ''DB error''), ())"
    by (simp add: mock_find_def)
  have f2: "find_sorted (mock_find (Inr [])) () = (Inr [], ())"
    by (simp add: mock_find_def)
  note A = getMessages_error_is_empty [where M = "mock_find (Inl (StoreError ''DB error''))"
      and s = "()" and sa = "()" and e = "StoreError ''DB error''" and rt = test_runtime]
  note B = getMessages_error_is_empty [where M = "mock_find (Inr [])"
      and s = "()" and sa = "()" and rt = test_runtime]
  have w1: "getMessages test_runtime (mock_find (Inl (StoreError ''DB error''))) () = ([], ())"
    using A f1 by simp
  have w2: "getMessages test_runtime (mock_find (Inr [])) () = ([], ())"
    using B f2 by simp
  from w1 w2 have w3: "getMessages test_runtime (mock_find (Inl (StoreError ''DB error''))) ()
       = getMessages test_runtime (mock_find (Inr [])) ()"
    by simp
  show ?thesis
    by (intro conjI w1 w2 w3)
qed

text \<open>
  C9, as amended. For a message that passes the body check, the timestamp handed to the
  store is the process clock when \<open>msgDateTime\<close> is absent or falsy (\<open>undefined\<close>, \<open>null\<close>,
  \<open>false\<close>, \<open>0\<close>, the empty string), and \<open>new Date\<close> of the supplied value whenever that value
  is truthy, with no check that the date is valid. \<open>addMessageRoute\<close> computes the
  timestamp of \<open>normalized\<close> by the same rule, and \<open>saveMessage\<close> keeps a timestamp computed
  so.
\<close>

theorem message_timestamp:
  assumes msg_ok: "truthy (toString_trim rt (opt_field message ''msg''))"
      and from_ok: "truthy (toString_trim rt (opt_field message ''msgFrom''))"
  shows "(\<not> truthy (opt_field message ''msgDateTime'') \<longrightarrow>
           saveMessage rt M message s =
             try_catch (create_msg M [(''msg'', toString_trim rt (opt_field message ''msg'')),
                                      (''msgFrom'', toString_trim rt (opt_field message ''msgFrom'')),
                                      (''msgDateTime'', JDate (Some (clock rt)))])
               (errorResp ''Failed to save message'') s)
    \<and> (truthy (opt_field message ''msgDateTime'') \<longrightarrow>
           saveMessage rt M message s =
             try_catch (create_msg M [(''msg'', toString_trim rt (opt_field message ''msg'')),
                                      (''msgFrom'', toString_trim rt (opt_field message ''msgFrom'')),
                                      (''msgDateTime'',
                                       JDate (new_Date rt (opt_field message ''msgDateTime'')))])
               (errorResp ''Failed to save message'') s)
    \<and> field (normalized rt incoming) ''msgDateTime''
        = JDate (if truthy (field incoming ''msgDateTime'')
                 then new_Date rt (field incoming ''msgDateTime'') else Some (clock rt))
    \<and> when_of rt (field (normalized rt incoming) ''msgDateTime'')
        = when_of rt (field incoming ''msgDateTime'')"
proof -
  note sm = saveMessage_create [OF msg_ok from_ok]
  have a: "\<not> truthy (opt_field message ''msgDateTime'') \<longrightarrow>
           saveMessage rt M message s =
             try_catch (create_msg M [(''msg'', toString_trim rt (opt_field message ''msg'')),
                                      (''msgFrom'', toString_trim rt (opt_field message ''msgFrom'')),
                                      (''msgDateTime'', JDate (Some (clock rt)))])
               (errorResp ''Failed to save message'') s"
    by (simp add: sm when_of_def)
  have b: "truthy (opt_field message ''msgDateTime'') \<longrightarrow>
           saveMessage rt M message s =
             try_catch (create_msg M [(''msg'', toString_trim rt (opt_field message ''msg'')),
                                      (''msgFrom'', toString_trim rt (opt_field message ''msgFrom'')),
                                      (''msgDateTime'',
                                       JDate (new_Date rt (opt_field message ''msgDateTime'')))])
               (errorResp ''Failed to save message'') s"
    by (simp add: sm when_of_def)
  have c: "field (normalized rt incoming) ''msgDateTime''
        = JDate (if truthy (field incoming ''msgDateTime'')
                 then new_Date rt (field incoming ''msgDateTime'') else Some (clock rt))"
    by (simp add: normalized_def field_def when_of_def)
  have d: "when_of rt (field (normalized rt incoming) ''msgDateTime'')
        = when_of rt (field incoming ''msgDateTime'')"
    by (simp add: c) (simp add: when_of_def)
  show ?thesis
    by (intro conjI a b c d)
qed

theorem message_timestamp_witness:
  "saveMessage test_runtime message_log
      (Some [(''msg'', JStr ''Hello''), (''msgFrom'', JStr ''User1'')]) []
     = ([(''_id'', JObjectId 0), (''msg'', JStr ''Hello''), (''msgFrom'', JStr ''User1''),
         (''msgDateTime'', JDate (Some 1730592000000))],
        [[(''msg'', JStr ''Hello''), (''msgFrom'', JStr ''User1''),
          (''msgDateTime'', JDate (Some 1730592000000))]])
   \<and> saveMessage test_runtime message_log
      (Some [(''msg'', JStr ''Hello''), (''msgFrom'', JStr ''User1''),
             (''msgDateTime'', JStr ''tomorrow'')]) []
     = ([(''_id'', JObjectId 0), (''msg'', JStr ''Hello''), (''msgFrom'', JStr ''User1''),
         (''msgDateTime'', JDate None)],
        [[(''msg'', JStr ''Hello''), (''msgFrom'', JStr ''User1''), (''msgDateTime'', JDate None)]])"
proof -
  let ?m1 = "Some [(''msg'', JStr ''Hello''), (''msgFrom'', JStr ''User1'')]"
  let ?m2 = "Some [(''msg'', JStr ''Hello''), (''msgFrom'', JStr ''User1''),
             (''msgDateTime'', JStr ''tomorrow'')]"
  have t1: "toString_trim test_runtime (opt_field ?m1 ''msg'') = JStr ''Hello''"
    "toString_trim test_runtime (opt_field ?m1 ''msgFrom'') = JStr ''User1''"
    "toString_trim test_runtime (opt_field ?m2 ''msg'') = JStr ''Hello''"
    "toString_trim test_runtime (opt_field ?m2 ''msgFrom'') = JStr ''User1''"
    by (simp_all add: toString_trim_def toString_def opt_field_def field_def trim_def isWhiteSpace_def)
  have tr1: "truthy (toString_trim test_runtime (opt_field ?m1 ''msg''))"
    "truthy (toString_trim test_runtime (opt_field ?m1 ''msgFrom''))"
    "truthy (toString_trim test_runtime (opt_field ?m2 ''msg''))"
    "truthy (toString_trim test_runtime (opt_field ?m2 ''msgFrom''))"
    by (simp_all add: t1)
  have absent: "\<not> truthy (opt_field ?m1 ''msgDateTime'')"
    by (simp add: opt_field_def field_def)
  have given: "truthy (opt_field ?m2 ''msgDateTime'')"
    by (simp add: opt_field_def field_def)
  have nd: "new_Date test_runtime (opt_field ?m2 ''msgDateTime'') = None"
    by (simp add: opt_field_def field_def test_runtime_def)
  have ck: "clock test_runtime = 1730592000000"
    by (simp add: test_runtime_def)
  note A = message_timestamp [OF tr1(1) tr1(2), where M = message_log and s = "[]"]
  note B = message_timestamp [OF tr1(3) tr1(4), where M = message_log and s = "[]"]
  have w1: "saveMessage test_runtime message_log ?m1 []
     = ([(''_id'', JObjectId 0), (''msg'', JStr ''Hello''), (''msgFrom'', JStr ''User1''),
         (''msgDateTime'', JDate (Some 1730592000000))],
        [[(''msg'', JStr ''Hello''), (''msgFrom'', JStr ''User1''),
          (''msgDateTime'', JDate (Some 1730592000000))]])"
    using A absent by (simp add: t1 ck try_catch_def message_log_def)
  have w2: "saveMessage test_runtime message_log ?m2 []
     = ([(''_id'', JObjectId 0), (''msg'', JStr ''Hello''), (''msgFrom'', JStr ''User1''),
         (''msgDateTime'', JDate None)],
        [[(''msg'', JStr ''Hello''), (''msgFrom'', JStr ''User1''), (''msgDateTime'', JDate None)]])"
    using B given by (simp add: t1 nd try_catch_def message_log_def)
  show ?thesis
    by (intro conjI w1 w2)
qed

text \<open>
  The claim of C9 has every supplied value parsed and used. A caller that supplies the
  number 0, which \<open>new Date\<close> reads as the epoch, gets the clock's time stored instead.
\<close>

theorem message_timestamp_zero_counterexample:
  "in_obj ''msgDateTime'' [(''msg'', JStr ''Hello''), (''msgFrom'', JStr ''User1''), (''msgDateTime'', JNum 0)]
   \<and> new_Date test_runtime (JNum 0) = Some 0
   \<and> saveMessage test_runtime message_log
      (Some [(''msg'', JStr ''Hello''), (''msgFrom'', JStr ''User1''), (''msgDateTime'', JNum 0)]) []
     = ([(''_id'', JObjectId 0), (''msg'', JStr ''Hello''), (''msgFrom'', JStr ''User1''),
         (''msgDateTime'', JDate (Some 1730592000000))],
        [[(''msg'', JStr ''Hello''), (''msgFrom'', JStr ''User1''),
          (''msgDateTime'', JDate (Some 1730592000000))]])"
  by (simp add: in_obj_def time_clip_def saveMessage_def step_defs Let_def toString_trim_def
      toString_def opt_field_def field_def trim_def isWhiteSpace_def when_of_def
      test_runtime_def message_log_def)

section \<open>Properties of the request handlers\<close>

lemmas handler_defs = try_catch_with_def on_res_def on_store_def await_def ret_def

text \<open>
  C10. \<open>getUser\<close> and \<open>deleteUser\<close> read the username from the body, so the path
  parameters do not matter to them. When the body has no username (or a falsy one) and
  the response 400 Invalid username is required has been sent, the handler goes on: it
  calls the service operation with that missing username, the store being left as the
  operation leaves it, and then sends 500 or 200 with the operation's response on the
  same response object.
\<close>

theorem handlers_continue_after_400:
  assumes absent: "\<not> truthy (opt_field (body req) ''username'')"
      and sent: "res 400 (Text ''Invalid username is required'') r = (Inr (), ra)"
  shows "getUser M res (req\<lparr>params := p\<rparr>) = getUser M res req
    \<and> deleteUser M res (req\<lparr>params := p\<rparr>) = deleteUser M res req
    \<and> fst (snd (getUser M res req (s, r)))
        = snd (getUserByUsername M (opt_field (body req) ''username'') s)
    \<and> fst (snd (deleteUser M res req (s, r)))
        = snd (deleteUserByUsername M (opt_field (body req) ''username'') s)
    \<and> getUser M res req (s, r) =
        (let (resp, sa) = getUserByUsername M (opt_field (body req) ''username'') s
         in try_catch_with (on_res (res (if in_obj ''error'' resp then 500 else 200) (Json resp)))
              (on_res (res 500 (Text ''Error when fetching user''))) (sa, ra))
    \<and> deleteUser M res req (s, r) =
        (let (resp, sa) = deleteUserByUsername M (opt_field (body req) ''username'') s
         in try_catch_with (on_res (res (if in_obj ''error'' resp then 500 else 200) (Json resp)))
              (on_res (res 500 (Text ''Error when deleting user''))) (sa, ra))"
proof -
  have a: "getUser M res (req\<lparr>params := p\<rparr>) = getUser M res req"
    by (simp add: getUser_def)
  have b: "deleteUser M res (req\<lparr>params := p\<rparr>) = deleteUser M res req"
    by (simp add: deleteUser_def)
  have e: "getUser M res req (s, r) =
        (let (resp, sa) = getUserByUsername M (opt_field (body req) ''username'') s
         in try_catch_with (on_res (res (if in_obj ''error'' resp then 500 else 200) (Json resp)))
              (on_res (res 500 (Text ''Error when fetching user''))) (sa, ra))"
    using absent sent
    by (simp add: getUser_def handler_defs Let_def split: prod.splits)
  have f: "deleteUser M res req (s, r) =
        (let (resp, sa) = deleteUserByUsername M (opt_field (body req) ''username'') s
         in try_catch_with (on_res (res (if in_obj ''error'' resp then 500 else 200) (Json resp)))
              (on_res (res 500 (Text ''Error when deleting user''))) (sa, ra))"
    using absent sent
    by (simp add: deleteUser_def handler_defs Let_def split: prod.splits)
  have c: "fst (snd (getUser M res req (s, r)))
        = snd (getUserByUsername M (opt_field (body req) ''username'') s)"
    unfolding e by (simp add: handler_defs Let_def split: prod.splits sum.splits)
  have d: "fst (snd (deleteUser M res req (s, r)))
        = snd (deleteUserByUsername M (opt_field (body req) ''username'') s)"
    unfolding f by (simp add: handler_defs Let_def split: prod.splits sum.splits)
  show ?thesis
    by (intro conjI a b c d e f)
qed

theorem handlers_continue_after_400_witness:
  "getUser lookup_log res_log \<lparr>body = None, params = [(''username'', JStr ''alice'')]\<rparr> ([], [])
     = (Inr (), ([[(''username'', JUndefined)]],
                 [(400, Text ''Invalid username is required''),
                  (500, Json (errorResp ''User not found''))]))
   \<and> deleteUser lookup_log res_log \<lparr>body = None, params = [(''username'', JStr ''alice'')]\<rparr> ([], [])
     = (Inr (), ([[(''username'', JUndefined)]],
                 [(400, Text ''Invalid username is required''),
                  (500, Json (errorResp ''User not found''))]))"
proof -
  let ?req = "\<lparr>body = None, params = [(''username'', JStr ''alice'')]\<rparr>"
  have absent: "\<not> truthy (opt_field (body ?req) ''username'')"
    by (simp add: opt_field_def)
  have sent: "res_log 400 (Text ''Invalid username is required'') []
      = (Inr (), [(400, Text ''Invalid username is required'')])"
    by (simp add: res_log_def)
  note A = handlers_continue_after_400 [where res = res_log and r = "[]" and req = ?req
      and ra = "[(400, Text ''Invalid username is required'')]" and M = lookup_log and s = "[]",
      OF absent sent]
  have un: "opt_field (body ?req) ''username'' = JUndefined"
    by (simp add: opt_field_def)
  have g: "getUserByUsername lookup_log JUndefined [] = (errorResp ''User not found'', [[(''username'', JUndefined)]])"
    by (simp add: getUserByUsername_def step_defs lookup_log_def)
  have d: "deleteUserByUsername lookup_log JUndefined [] = (errorResp ''User not found'', [[(''username'', JUndefined)]])"
    by (simp add: deleteUserByUsername_def step_defs lookup_log_def)
  have err: "in_obj ''error'' (errorResp ''User not found'')"
    by (simp add: in_obj_def errorResp_def)
  have w1: "getUser lookup_log res_log ?req ([], [])
     = (Inr (), ([[(''username'', JUndefined)]],
                 [(400, Text ''Invalid username is required''),
                  (500, Json (errorResp ''User not found''))]))"
    using A by (simp only: un g) (simp add: err try_catch_with_def on_res_def res_log_def)
  have w2: "deleteUser lookup_log res_log ?req ([], [])
     = (Inr (), ([[(''username'', JUndefined)]],
                 [(400, Text ''Invalid username is required''),
                  (500, Json (errorResp ''User not found''))]))"
    using A by (simp only: un d) (simp add: err try_catch_with_def on_res_def res_log_def)
  show ?thesis
    by (intro conjI w1 w2)
qed

end
